theory Spec2Isabelle
  imports Complex_Main
begin

section \<open>Numbers and strings of the source language\<close>

text \<open>
  The program is TypeScript. A \<open>number\<close> is an IEEE double: a finite value, one of the
  two infinities, or NaN. A finite double is modelled by the rational it denotes;
  \<open>parseFloat\<close> rounds the decimal value of its text to the nearest double, and to an
  infinity where the value is too large. The comparison operators are modelled with their
  treatment of NaN: every comparison with NaN is false.

  A string is modelled as \<open>string\<close>; each \<open>char\<close> stands for one code unit below 256.
\<close>

datatype number = NaN | NegInfinity | Fin rat | PosInfinity

fun js_lt :: "number \<Rightarrow> number \<Rightarrow> bool" where
  "js_lt NaN y = False"
| "js_lt x NaN = False"
| "js_lt (Fin a) (Fin b) = (a < b)"
| "js_lt NegInfinity NegInfinity = False"
| "js_lt NegInfinity y = True"
| "js_lt x NegInfinity = False"
| "js_lt PosInfinity y = False"
| "js_lt x PosInfinity = True"

definition js_gt :: "number \<Rightarrow> number \<Rightarrow> bool" where
  "js_gt x y = js_lt y x"

text \<open>\<open>x <= y\<close> of the source language, used only to state interval membership.\<close>

definition js_le :: "number \<Rightarrow> number \<Rightarrow> bool" where
  "js_le x y = (x \<noteq> NaN \<and> y \<noteq> NaN \<and> (js_lt x y \<or> x = y))"

text \<open>\<open>s.split(sep)\<close> for a separator of one character: never empty, \<open>"".split(sep)\<close> is \<open>[""]\<close>.\<close>

fun split_on :: "char \<Rightarrow> string \<Rightarrow> string list" where
  "split_on sep [] = [[]]"
| "split_on sep (c # cs) =
     (if c = sep then [] # split_on sep cs
      else (case split_on sep cs of
              [] \<Rightarrow> [[c]]
            | p # ps \<Rightarrow> (c # p) # ps))"

fun startsWith :: "string \<Rightarrow> string \<Rightarrow> bool" where
  "startsWith s [] = True"
| "startsWith [] (p # ps) = False"
| "startsWith (c # cs) (p # ps) = (c = p \<and> startsWith cs ps)"

text \<open>\<open>line.includes(label)\<close>: the label occurs somewhere in the line.\<close>

fun str_includes :: "string \<Rightarrow> string \<Rightarrow> bool" where
  "str_includes [] pat = (pat = [])"
| "str_includes (c # cs) pat = (startsWith (c # cs) pat \<or> str_includes cs pat)"

text \<open>
  \<open>toLowerCase\<close> on code units below 256: the ASCII capitals and the Latin-1 capitals
  (0xC0 to 0xDE without the multiplication sign 0xD7) move up by 32.
\<close>

definition lower_char :: "char \<Rightarrow> char" where
  "lower_char c =
     (let n = (of_char c :: nat)
      in if (65 \<le> n \<and> n \<le> 90) \<or> (192 \<le> n \<and> n \<le> 222 \<and> n \<noteq> 215)
         then char_of (n + 32) else c)"

definition toLowerCase :: "string \<Rightarrow> string" where
  "toLowerCase s = map lower_char s"

section \<open>Regular expressions of the parsers\<close>

text \<open>
  The patterns of the source are sequences of character classes, each taken once, optionally
  (\<open>?\<close>), any number of times (\<open>*\<close>) or at least once (\<open>+\<close>). \<open>rx_match\<close> is the
  backtracking matcher of the source language on such a sequence, anchored at the start of the
  string: a quantifier is greedy, and gives characters back when the rest of the pattern fails.
  It returns the piece of the string matched by each item.
\<close>

datatype quant = One | Opt | Star | Plus

type_synonym item = "(char \<Rightarrow> bool) \<times> quant"

fun rx_match :: "item list \<Rightarrow> string \<Rightarrow> string list option" where
  "rx_match [] s = Some []"
| "rx_match ((p, One) # its) s =
     (case s of
        [] \<Rightarrow> None
      | c # cs \<Rightarrow> if p c then map_option ((#) [c]) (rx_match its cs) else None)"
| "rx_match ((p, Opt) # its) s =
     (case (case s of
              [] \<Rightarrow> None
            | c # cs \<Rightarrow> if p c then map_option ((#) [c]) (rx_match its cs) else None) of
        Some r \<Rightarrow> Some r
      | None \<Rightarrow> map_option ((#) []) (rx_match its s))"
| "rx_match ((p, Star) # its) s =
     (case (case s of
              [] \<Rightarrow> None
            | c # cs \<Rightarrow>
                if p c
                then (case rx_match ((p, Star) # its) cs of
                        Some (x # xs) \<Rightarrow> Some ((c # x) # xs)
                      | _ \<Rightarrow> None)
                else None) of
        Some r \<Rightarrow> Some r
      | None \<Rightarrow> map_option ((#) []) (rx_match its s))"
| "rx_match ((p, Plus) # its) s =
     (case s of
        [] \<Rightarrow> None
      | c # cs \<Rightarrow>
          if p c
          then (case rx_match ((p, Star) # its) cs of
                  Some (x # xs) \<Rightarrow> Some ((c # x) # xs)
                | _ \<Rightarrow> None)
          else None)"

text \<open>\<open>line.match(re)\<close> without the global flag: the match at the leftmost start position.\<close>

fun rx_search :: "item list \<Rightarrow> string \<Rightarrow> string list option" where
  "rx_search re [] = rx_match re []"
| "rx_search re (c # cs) =
     (case rx_match re (c # cs) of
        Some ps \<Rightarrow> Some ps
      | None \<Rightarrow> rx_search re cs)"

definition is_digit :: "char \<Rightarrow> bool" where
  "is_digit c = (c \<in> set ''0123456789'')"

text \<open>\<open>\s\<close> on code units below 256: tab, line feed, vertical tab, form feed, carriage
  return, space and the no-break space.\<close>

definition is_space :: "char \<Rightarrow> bool" where
  "is_space c = (c \<in> set [CHR 0x09, CHR 0x0A, CHR 0x0B, CHR 0x0C, CHR 0x0D, CHR 0x20, CHR 0xA0])"

definition lit :: "string \<Rightarrow> item list" where
  "lit s = map (\<lambda>c. ((\<lambda>d. d = c), One)) s"

text \<open>\<open>/(-?\d+\.?\d*)\s*LUFS/\<close>, \<open>/(\d+\.?\d*)\s*LU/\<close> and \<open>/(-?\d+\.?\d*)\s*dBTP/\<close>.
  The capture group is made of the first four items (three for the pattern without sign).\<close>

definition signed_number :: "item list" where
  "signed_number = [((\<lambda>c. c = CHR ''-''), Opt), (is_digit, Plus), ((\<lambda>c. c = CHR ''.''), Opt), (is_digit, Star)]"

definition unsigned_number :: "item list" where
  "unsigned_number = [(is_digit, Plus), ((\<lambda>c. c = CHR ''.''), Opt), (is_digit, Star)]"

definition match_LUFS :: "string \<Rightarrow> string option" where
  "match_LUFS line =
     map_option (\<lambda>ps. concat (take 4 ps))
       (rx_search (signed_number @ [(is_space, Star)] @ lit ''LUFS'') line)"

definition match_LU :: "string \<Rightarrow> string option" where
  "match_LU line =
     map_option (\<lambda>ps. concat (take 3 ps))
       (rx_search (unsigned_number @ [(is_space, Star)] @ lit ''LU'') line)"

definition match_dBTP :: "string \<Rightarrow> string option" where
  "match_dBTP line =
     map_option (\<lambda>ps. concat (take 4 ps))
       (rx_search (signed_number @ [(is_space, Star)] @ lit ''dBTP'') line)"

text \<open>
  The double nearest to a rational (\<open>to_double\<close>): the rounding of IEEE 754 binary64, to
  nearest with ties to even. For a positive \<open>q\<close> with \<open>2^e \<le> q < 2^(e+1)\<close> the doubles
  around \<open>q\<close> are the multiples of \<open>2^(max e (-1022) - 52)\<close> (53 significant bits; below
  \<open>2^(-1022)\<close> the subnormal numbers keep the spacing \<open>2^(-1074)\<close>); \<open>q\<close> is rounded to the
  nearest multiple, and a result of \<open>2^1024\<close> or more is \<open>Infinity\<close>. Negative numbers round
  as their absolute values do. The two zeros of the doubles are not distinguished.
\<close>

definition pow2 :: "int \<Rightarrow> rat" where
  "pow2 e = (if 0 \<le> e then of_int (2 ^ nat e) else 1 / of_int (2 ^ nat (- e)))"

function bit_length :: "int \<Rightarrow> int" where
  "bit_length k = (if k \<le> 0 then 0 else 1 + bit_length (k div 2))"
  by pat_completeness auto
termination
  by (relation "measure nat") auto

text \<open>The \<open>e\<close> with \<open>2^e \<le> q < 2^(e+1)\<close>, for a positive \<open>q\<close>: with numerator and
  denominator of \<open>la\<close> and \<open>lb\<close> bits, \<open>q\<close> lies between \<open>2^(la-lb-1)\<close> and \<open>2^(la-lb+1)\<close>.\<close>

definition binary_exponent :: "rat \<Rightarrow> int" where
  "binary_exponent q =
     (let (a, b) = quotient_of q;
          d = bit_length a - bit_length b
      in if pow2 d \<le> q then d else d - 1)"

text \<open>The integer nearest to \<open>num / den\<close>, for a positive \<open>den\<close>; of two nearest integers the
  even one.\<close>

definition round_half_even :: "int \<Rightarrow> int \<Rightarrow> int" where
  "round_half_even num den =
     (let n = num div den; r = num mod den
      in if 2 * r < den then n else if den < 2 * r then n + 1 else if even n then n else n + 1)"

definition to_double_pos :: "rat \<Rightarrow> number" where
  "to_double_pos q =
     (let (a, b) = quotient_of q;
          e = binary_exponent q;
          t = max e (- 1022) - 52;
          n = (if 0 \<le> t then round_half_even a (b * 2 ^ nat t)
               else round_half_even (a * 2 ^ nat (- t)) b);
          r = of_int n * pow2 t
      in if pow2 1024 \<le> r then PosInfinity else Fin r)"

fun negate :: "number \<Rightarrow> number" where
  "negate NaN = NaN"
| "negate NegInfinity = PosInfinity"
| "negate (Fin r) = Fin (- r)"
| "negate PosInfinity = NegInfinity"

definition to_double :: "rat \<Rightarrow> number" where
  "to_double q =
     (if q = 0 then Fin 0
      else if 0 < q then to_double_pos q
      else negate (to_double_pos (- q)))"

text \<open>
  \<open>parseFloat\<close> on the strings the capture groups produce: an optional minus sign, digits,
  and optionally a point and more digits; the result is the double nearest to the decimal
  value of the text. Exponents, leading white space and the word \<open>Infinity\<close>, which
  \<open>parseFloat\<close> also reads, cannot occur in a captured string.
\<close>

definition digit_val :: "char \<Rightarrow> nat" where
  "digit_val c = (of_char c :: nat) - of_char (CHR ''0'')"

definition digits_val :: "string \<Rightarrow> int" where
  "digits_val ds = foldl (\<lambda>a c. 10 * a + int (digit_val c)) 0 ds"

definition parseUnsigned :: "string \<Rightarrow> number" where
  "parseUnsigned s =
     (let ip = takeWhile is_digit s;
          rest = dropWhile is_digit s;
          fp = (case rest of
                  [] \<Rightarrow> []
                | c # cs \<Rightarrow> if c = CHR ''.'' then takeWhile is_digit cs else [])
      in if ip = [] \<and> fp = [] then NaN
         else to_double (of_int (digits_val (ip @ fp)) / of_int (10 ^ length fp)))"

definition parseFloat :: "string \<Rightarrow> number" where
  "parseFloat s =
     (case s of
        [] \<Rightarrow> NaN
      | c # cs \<Rightarrow> if c = CHR ''-'' then negate (parseUnsigned cs) else parseUnsigned s)"

section \<open>The measurement parsers\<close>

record EBULoudnessMetrics =
  integratedLoudness :: number
  loudnessRange :: number
  truePeakMax :: number
  momentaryMax :: number
  shortTermMax :: number

definition zero_metrics :: EBULoudnessMetrics where
  "zero_metrics =
     \<lparr>integratedLoudness = Fin 0, loudnessRange = Fin 0, truePeakMax = Fin 0,
      momentaryMax = Fin 0, shortTermMax = Fin 0\<rparr>"

text \<open>
  \<open>FFmpegUtils.parseEBUOutput\<close>: the body of the loop over the lines, then the loop. The
  variables of the source are the fields of the record; \<open>momentaryMax\<close> and \<open>shortTermMax\<close>
  are constants 0 there.
\<close>

definition FFmpegUtils_line :: "EBULoudnessMetrics \<Rightarrow> string \<Rightarrow> EBULoudnessMetrics" where
  "FFmpegUtils_line m line =
     (if str_includes line ''Input Integrated:'' then
        (case match_LUFS line of
           Some v \<Rightarrow> m\<lparr>integratedLoudness := parseFloat v\<rparr>
         | None \<Rightarrow> m)
      else if str_includes line ''Input LRA:'' then
        (case match_LU line of
           Some v \<Rightarrow> m\<lparr>loudnessRange := parseFloat v\<rparr>
         | None \<Rightarrow> m)
      else if str_includes line ''Input True Peak:'' then
        (case match_dBTP line of
           Some v \<Rightarrow> m\<lparr>truePeakMax := parseFloat v\<rparr>
         | None \<Rightarrow> m)
      else m)"

definition FFmpegUtils_parseEBUOutput :: "string \<Rightarrow> EBULoudnessMetrics" where
  "FFmpegUtils_parseEBUOutput output =
     foldl FFmpegUtils_line zero_metrics (split_on (CHR 0x0A) output)"

text \<open>
  \<open>StreamingAnalyzer.parseEBUOutput\<close> of \<open>streaming-analyzer.ts\<close>; the private
  \<open>FFmpegAnalyzer.parseEBUOutput\<close> of \<open>ffmpeg-analyzer.ts\<close> is the same text.
\<close>

definition StreamingAnalyzer_line :: "EBULoudnessMetrics \<Rightarrow> string \<Rightarrow> EBULoudnessMetrics" where
  "StreamingAnalyzer_line m line =
     (if str_includes line ''Integrated loudness:'' then
        (case match_LUFS line of
           Some v \<Rightarrow> m\<lparr>integratedLoudness := parseFloat v\<rparr>
         | None \<Rightarrow> m)
      else if str_includes line ''Loudness range:'' then
        (case match_LU line of
           Some v \<Rightarrow> m\<lparr>loudnessRange := parseFloat v\<rparr>
         | None \<Rightarrow> m)
      else if str_includes line ''True peak:'' then
        (case match_dBTP line of
           Some v \<Rightarrow> m\<lparr>truePeakMax := parseFloat v\<rparr>
         | None \<Rightarrow> m)
      else if str_includes line ''Momentary max:'' then
        (case match_LUFS line of
           Some v \<Rightarrow> m\<lparr>momentaryMax := parseFloat v\<rparr>
         | None \<Rightarrow> m)
      else if str_includes line ''Short-term max:'' then
        (case match_LUFS line of
           Some v \<Rightarrow> m\<lparr>shortTermMax := parseFloat v\<rparr>
         | None \<Rightarrow> m)
      else m)"

definition StreamingAnalyzer_parseEBUOutput :: "string \<Rightarrow> EBULoudnessMetrics" where
  "StreamingAnalyzer_parseEBUOutput output =
     foldl StreamingAnalyzer_line zero_metrics (split_on (CHR 0x0A) output)"

section \<open>The format classifier\<close>

datatype confidence = High | Medium | Low

record format_entry =
  entry_confidence :: confidence
  entry_canStream :: bool
  entry_reason :: "string option"

record StreamingCapability =
  canStream :: bool
  format :: string
  confidence :: confidence
  fallbackReason :: "string option"

text \<open>\<open>StreamingAnalyzer.STREAMABLE_FORMATS\<close>, in the order of the source.\<close>

definition STREAMABLE_FORMATS :: "(string \<times> format_entry) list" where
  "STREAMABLE_FORMATS =
     [(''mp4'', \<lparr>entry_confidence = High, entry_canStream = True, entry_reason = None\<rparr>),
      (''mov'', \<lparr>entry_confidence = High, entry_canStream = True, entry_reason = None\<rparr>),
      (''m4v'', \<lparr>entry_confidence = High, entry_canStream = True, entry_reason = None\<rparr>),
      (''ts'', \<lparr>entry_confidence = High, entry_canStream = True, entry_reason = None\<rparr>),
      (''m2ts'', \<lparr>entry_confidence = High, entry_canStream = True, entry_reason = None\<rparr>),
      (''webm'', \<lparr>entry_confidence = High, entry_canStream = True, entry_reason = None\<rparr>),
      (''mxf'', \<lparr>entry_confidence = Medium, entry_canStream = True, entry_reason = None\<rparr>),
      (''mkv'', \<lparr>entry_confidence = Medium, entry_canStream = True, entry_reason = None\<rparr>),
      (''3gp'', \<lparr>entry_confidence = Medium, entry_canStream = True, entry_reason = None\<rparr>),
      (''avi'', \<lparr>entry_confidence = Low, entry_canStream = False,
                entry_reason = Some ''index usually at end''\<rparr>),
      (''wmv'', \<lparr>entry_confidence = Low, entry_canStream = False,
                entry_reason = Some ''poor streaming support''\<rparr>),
      (''flv'', \<lparr>entry_confidence = Low, entry_canStream = False,
                entry_reason = Some ''metadata at end''\<rparr>),
      (''rm'', \<lparr>entry_confidence = Low, entry_canStream = False,
               entry_reason = Some ''proprietary format''\<rparr>),
      (''rmvb'', \<lparr>entry_confidence = Low, entry_canStream = False,
                 entry_reason = Some ''variable bitrate issues''\<rparr>)]"

text \<open>
  \<open>extractExtension\<close>: \<open>url.split('?')[0]\<close>, then the last of the parts between points, or the
  empty string when there is no point. \<open>split_on\<close> never returns the empty list, so \<open>hd\<close> is
  the element at index 0.
\<close>

definition extractExtension :: "string \<Rightarrow> string" where
  "extractExtension url =
     (let urlPath = hd (split_on (CHR ''?'') url);
          parts = split_on (CHR ''.'') urlPath
      in if length parts > 1 then last parts else [])"

definition getStreamingCapability :: "string \<Rightarrow> StreamingCapability" where
  "getStreamingCapability url =
     (let extension = extractExtension url
      in case map_of STREAMABLE_FORMATS (toLowerCase extension) of
           None \<Rightarrow>
             \<lparr>canStream = False, format = extension, confidence = Low,
              fallbackReason = Some ''Unknown format streaming capability''\<rparr>
         | Some capability \<Rightarrow>
             \<lparr>canStream = entry_canStream capability, format = extension,
              confidence = entry_confidence capability,
              fallbackReason = entry_reason capability\<rparr>)"

section \<open>The remote probe\<close>

text \<open>
  \<open>testStreamingCapability\<close> calls \<open>spawn\<close> inside the executor of a promise and registers
  three handlers on the child process.

  \<open>spawn\<close> of the runtime either returns a child process or throws. It throws
  \<open>ERR_INVALID_ARG_VALUE\<close> before any process is started when the command or one of the
  arguments contains the character with code 0. Otherwise the operating system is asked to
  start the process: a failure of the kinds the runtime defers (no such file, no permission, no
  more processes or descriptors) gives a child process that emits \<open>error\<close>; any other failure
  (an argument list too long, for one) is thrown by \<open>spawn\<close> itself. The operating system and
  the process are a parameter \<open>os\<close>: for a command and its arguments, the error thrown, or the
  events the child process emits, in their order.

  The events are data on standard output, \<open>close\<close> with the exit code (\<open>null\<close>, here \<open>None\<close>,
  when a signal ended the process, as the kill after the timeout of 10 seconds does), and
  \<open>error\<close> (the process could not be started or killed).
\<close>

datatype proc_event = StdoutData | Close "int option" | ProcError

datatype spawn_result = Throws string | Child "proc_event list"

definition spawn :: "(string \<Rightarrow> string list \<Rightarrow> spawn_result) \<Rightarrow> string \<Rightarrow> string list \<Rightarrow> spawn_result" where
  "spawn os command args =
     (if CHR 0x00 \<in> set (concat (command # args)) then Throws ''ERR_INVALID_ARG_VALUE''
      else os command args)"

text \<open>
  A promise is pending, fulfilled with a value, or rejected with an error. An exception thrown
  by the executor rejects the promise. The executor of \<open>testStreamingCapability\<close> takes
  \<open>resolve\<close> only; the promise takes the value of the first call of \<open>resolve\<close>, later calls
  do nothing (\<open>resolved\<close> is \<open>None\<close> until the first call).
\<close>

datatype 'a promise = Pending | Fulfilled 'a | Rejected string

record probe_state =
  hasOutput :: bool
  resolved :: "bool option"

definition resolve :: "bool \<Rightarrow> probe_state \<Rightarrow> probe_state" where
  "resolve v st = (if resolved st = None then st\<lparr>resolved := Some v\<rparr> else st)"

fun probe_handler :: "probe_state \<Rightarrow> proc_event \<Rightarrow> probe_state" where
  "probe_handler st StdoutData = st\<lparr>hasOutput := True\<rparr>"
| "probe_handler st (Close code) = resolve (code = Some 0 \<and> hasOutput st) st"
| "probe_handler st ProcError = resolve False st"

definition testStreamingCapability ::
    "(string \<Rightarrow> string list \<Rightarrow> spawn_result) \<Rightarrow> string \<Rightarrow> bool promise" where
  "testStreamingCapability os url =
     (case spawn os ''ffprobe''
             [''-v'', ''quiet'', ''-print_format'', ''json'', ''-show_format'',
              ''-analyzeduration'', ''1000000'', ''-probesize'', ''1048576'', url] of
        Throws e \<Rightarrow> Rejected e
      | Child events \<Rightarrow>
          (case resolved (foldl probe_handler \<lparr>hasOutput = False, resolved = None\<rparr> events) of
             None \<Rightarrow> Pending
           | Some v \<Rightarrow> Fulfilled v))"

section \<open>The compliance checker\<close>

text \<open>The nested objects of \<open>EBUStandards\<close> are flattened into one record.\<close>

record EBUStandards =
  integratedLoudness_min :: number
  integratedLoudness_max :: number
  integratedLoudness_target :: number
  loudnessRange_max :: number
  truePeak_max :: number

definition EBU_R128_STANDARDS :: EBUStandards where
  "EBU_R128_STANDARDS =
     \<lparr>integratedLoudness_min = Fin (-24), integratedLoudness_max = Fin (-22),
      integratedLoudness_target = Fin (-23), loudnessRange_max = Fin 7,
      truePeak_max = Fin (-1)\<rparr>"

definition EBU_R128_MUSIC_STANDARDS :: EBUStandards where
  "EBU_R128_MUSIC_STANDARDS =
     \<lparr>integratedLoudness_min = Fin (-18), integratedLoudness_max = Fin (-14),
      integratedLoudness_target = Fin (-16), loudnessRange_max = Fin 20,
      truePeak_max = Fin (-1)\<rparr>"

text \<open>
  A violation is a message built from a template and the numbers put into it; the model keeps
  the template and the numbers, not the rendered text.
\<close>

datatype violation =
    IntegratedLoudnessOutsideRange number number number
  | LoudnessRangeExceedsMaximum number number
  | TruePeakExceedsMaximum number number

record EBUComplianceResult =
  file_path :: string
  isCompliant :: bool
  metrics :: EBULoudnessMetrics
  violations :: "violation list"
  timestamp :: string

text \<open>\<open>checkCompliance\<close>; \<open>now\<close> is the value of \<open>new Date().toISOString()\<close>.\<close>

definition checkCompliance ::
  "EBUStandards \<Rightarrow> string \<Rightarrow> string \<Rightarrow> EBULoudnessMetrics \<Rightarrow> EBUComplianceResult" where
  "checkCompliance standards now filePath m =
     (let v0 = [];
          v1 = (if js_lt (integratedLoudness m) (integratedLoudness_min standards) \<or>
                   js_gt (integratedLoudness m) (integratedLoudness_max standards)
                then v0 @ [IntegratedLoudnessOutsideRange (integratedLoudness m)
                             (integratedLoudness_min standards) (integratedLoudness_max standards)]
                else v0);
          v2 = (if js_gt (loudnessRange m) (loudnessRange_max standards)
                then v1 @ [LoudnessRangeExceedsMaximum (loudnessRange m) (loudnessRange_max standards)]
                else v1);
          v3 = (if js_gt (truePeakMax m) (truePeak_max standards)
                then v2 @ [TruePeakExceedsMaximum (truePeakMax m) (truePeak_max standards)]
                else v2)
      in \<lparr>file_path = filePath, isCompliant = (length v3 = 0), metrics = m, violations = v3,
          timestamp = now\<rparr>)"

section \<open>Recognising S3 locators\<close>

text \<open>
  \<open>S3Downloader.isS3Url\<close> tests four patterns, each anchored at the start and with the flag
  \<open>i\<close>: an ASCII letter of the pattern matches both of its cases. \<open>.\<close> is any character but a
  line terminator.
\<close>

definition ci_lit :: "string \<Rightarrow> item list" where
  "ci_lit s = map (\<lambda>c. ((\<lambda>d. lower_char d = lower_char c), One)) s"

definition any_char :: "char \<Rightarrow> bool" where
  "any_char c = (c \<noteq> CHR 0x0A \<and> c \<noteq> CHR 0x0D)"

definition rx_test :: "item list \<Rightarrow> string \<Rightarrow> bool" where
  "rx_test re s = (rx_match re s \<noteq> None)"

definition https_scheme :: "item list" where
  "https_scheme = ci_lit ''http'' @ [((\<lambda>d. lower_char d = CHR ''s''), Opt)] @ ci_lit ''://''"

definition isS3Url :: "string \<Rightarrow> bool" where
  "isS3Url url =
     (rx_test (ci_lit ''s3://'') url \<or>
      rx_test (https_scheme @ [(any_char, Star)] @ ci_lit ''.s3'' @
               [((\<lambda>c. c = CHR ''.'' \<or> c = CHR ''-''), One), (any_char, Star)] @
               ci_lit ''.amazonaws.com'') url \<or>
      rx_test (https_scheme @ ci_lit ''s3'' @
               [((\<lambda>c. c = CHR ''.'' \<or> c = CHR ''-''), One), (any_char, Star)] @
               ci_lit ''.amazonaws.com'') url \<or>
      rx_test (https_scheme @ [(any_char, Star)] @ ci_lit ''.s3.'' @ [(any_char, Star)] @
               ci_lit ''.amazonaws.com'') url)"

section \<open>The analysis of one input: \<open>AudioQC.analyze\<close>\<close>

text \<open>
  The state the analysis works on is the set of paths that exist in the file system, and the
  list of the external actions taken so far, in their order: downloads, spawned processes,
  deletions, the report written and uploaded.
\<close>

datatype action =
    Download string
  | SpawnFfprobe string
  | SpawnFfmpeg string
  | Unlink string
  | WriteFile string
  | UploadReport

record world =
  files :: "string set"
  actions :: "action list"

record ContainerInfo =
  hasVideo :: bool
  hasAudio :: bool
  audioStreamCount :: nat
  videoStreamCount :: nat

record AudioStream =
  stream_index :: nat
  codecName :: string
  channels :: nat

text \<open>How a spawned measurement process ends: it could not be started, or it closed with an
  exit code (none when a signal ended it), having written its diagnostic text.\<close>

datatype proc_outcome = SpawnFailed string | Exited "int option" string

text \<open>
  The environment gives the outcome of every external collaborator: the download
  (\<open>S3Downloader.downloadFileStatic\<close>: an error, or the path of the temporary file it created),
  \<open>path.extname\<close> of the runtime, the two inspections of the container (each promise is
  rejected with a message or resolved), the measurement process run on a source with an optional
  stream index, whether \<open>fs.unlinkSync\<close> fails on an existing file, whether writing the report
  file fails, the upload of the report, and the clock.
\<close>

record environment =
  downloadFileStatic :: "string \<Rightarrow> string + string"
  extname :: "string \<Rightarrow> string"
  getContainerInfo :: "string \<Rightarrow> string + ContainerInfo"
  getAudioStreams :: "string \<Rightarrow> string + AudioStream list"
  run_ffmpeg :: "string \<Rightarrow> int option \<Rightarrow> proc_outcome"
  unlink_fails :: "string \<Rightarrow> bool"
  writeFile_fails :: "string \<Rightarrow> bool"
  uploadReportToS3 :: "string \<Rightarrow> string + string"
  clock :: string

datatype error =
    DownloadFailed string
  | InputFileDoesNotExist string
  | NoAudioInContainer string
  | NoAudioInFile string
  | InspectionFailed string
  | FFmpegStartFailed string
  | FFmpegProcessFailed "int option" string
  | WriteFailed string
  | UploadFailed string

record AudioQCOptions =
  inputFile :: string
  audioStreamIndex :: "int option"
  s3Upload :: "string option"
  outputFile :: "string option"
  verbose :: bool

definition VIDEO_CONTAINER_EXTENSIONS :: "string list" where
  "VIDEO_CONTAINER_EXTENSIONS =
     [''.mp4'', ''.mov'', ''.avi'', ''.mkv'', ''.webm'', ''.flv'', ''.wmv'', ''.m4v'',
      ''.mxf'', ''.ts'', ''.m2ts'', ''.vob'', ''.3gp'', ''.asf'', ''.rm'', ''.rmvb'']"

definition isVideoContainer :: "environment \<Rightarrow> string \<Rightarrow> bool" where
  "isVideoContainer env filePath =
     (toLowerCase (extname env filePath) \<in> set VIDEO_CONTAINER_EXTENSIONS)"

definition record_action :: "action \<Rightarrow> world \<Rightarrow> world" where
  "record_action a w = w\<lparr>actions := actions w @ [a]\<rparr>"

text \<open>\<open>try { fs.unlinkSync(p) } catch (e) {}\<close>: the deletion is attempted; when it fails (the
  path does not exist, or the environment refuses) the file system stays as it is and nothing
  is raised.\<close>

definition unlink_swallow :: "environment \<Rightarrow> string \<Rightarrow> world \<Rightarrow> world" where
  "unlink_swallow env p w =
     (let w1 = record_action (Unlink p) w
      in if p \<in> files w1 \<and> \<not> unlink_fails env p then w1\<lparr>files := files w1 - {p}\<rparr> else w1)"

definition cleanup :: "environment \<Rightarrow> bool \<Rightarrow> string \<Rightarrow> world \<Rightarrow> world" where
  "cleanup env isTemporaryFile p w = (if isTemporaryFile then unlink_swallow env p w else w)"

text \<open>\<open>FFmpegAnalyzer.analyzeFile\<close>, that is \<open>FFmpegUtils.analyzeAudioLoudness\<close>: the process
  is spawned on the source; a start failure or an exit code other than 0 rejects, otherwise the
  diagnostic text is parsed.\<close>

definition analyzeAudioLoudness ::
  "environment \<Rightarrow> string \<Rightarrow> int option \<Rightarrow> world \<Rightarrow> (error + EBULoudnessMetrics) \<times> world" where
  "analyzeAudioLoudness env source idx w =
     (let w1 = record_action (SpawnFfmpeg source) w
      in case run_ffmpeg env source idx of
           SpawnFailed msg \<Rightarrow> (Inl (FFmpegStartFailed msg), w1)
         | Exited code errorOutput \<Rightarrow>
             if code \<noteq> Some 0 then (Inl (FFmpegProcessFailed code errorOutput), w1)
             else (Inr (FFmpegUtils_parseEBUOutput errorOutput), w1))"

text \<open>\<open>StreamingAnalyzer.analyzeFileFromUrl\<close> runs the same measurement on the locator
  itself.\<close>

definition analyzeFileFromUrl ::
  "environment \<Rightarrow> string \<Rightarrow> int option \<Rightarrow> world \<Rightarrow> (error + EBULoudnessMetrics) \<times> world" where
  "analyzeFileFromUrl env url idx w = analyzeAudioLoudness env url idx w"

text \<open>The block under \<open>if (verbose)\<close>, without its printing: \<open>None\<close> when the analysis goes on,
  or the error it throws.\<close>

definition verbose_checks ::
  "environment \<Rightarrow> AudioQCOptions \<Rightarrow> string \<Rightarrow> bool \<Rightarrow> world \<Rightarrow> error option \<times> world" where
  "verbose_checks env opts localFilePath isTemporaryFile w =
     (let (r1, w1) =
            (if isVideoContainer env localFilePath then
               (let wa = record_action (SpawnFfprobe localFilePath) w
                in case getContainerInfo env localFilePath of
                     Inl msg \<Rightarrow> (Some (InspectionFailed msg), wa)
                   | Inr containerInfo \<Rightarrow>
                       if \<not> hasAudio containerInfo
                       then (Some (NoAudioInContainer (inputFile opts)),
                             cleanup env isTemporaryFile localFilePath wa)
                       else (None, wa))
             else (None, w))
      in case r1 of
           Some e \<Rightarrow> (Some e, w1)
         | None \<Rightarrow>
             (let wb = record_action (SpawnFfprobe localFilePath) w1
              in case getAudioStreams env localFilePath of
                   Inl msg \<Rightarrow> (Some (InspectionFailed msg), wb)
                 | Inr audioStreams \<Rightarrow>
                     if length audioStreams = 0
                     then (Some (NoAudioInFile (inputFile opts)),
                           cleanup env isTemporaryFile localFilePath wb)
                     else (None, wb)))"

text \<open>The body of the \<open>try\<close>: measure, check, write the report when \<open>outputFile\<close> is a
  non-empty string, upload it when \<open>s3Upload\<close> is given.\<close>

definition measure_and_report ::
  "environment \<Rightarrow> EBUStandards \<Rightarrow> AudioQCOptions \<Rightarrow> string \<Rightarrow> world \<Rightarrow>
     (error + EBUComplianceResult) \<times> world" where
  "measure_and_report env standards opts localFilePath w =
     (case analyzeAudioLoudness env localFilePath (audioStreamIndex opts) w of
        (Inl e, w1) \<Rightarrow> (Inl e, w1)
      | (Inr m, w1) \<Rightarrow>
          (let result = checkCompliance standards (clock env) (inputFile opts) m;
               (r2, w2) =
                 (case outputFile opts of
                    None \<Rightarrow> (None, w1)
                  | Some out \<Rightarrow>
                      if out = [] then (None, w1)
                      else (let wa = record_action (WriteFile out) w1
                            in if writeFile_fails env out then (Some (WriteFailed out), wa)
                               else (None, wa\<lparr>files := insert out (files wa)\<rparr>)))
           in case r2 of
                Some e \<Rightarrow> (Inl e, w2)
              | None \<Rightarrow>
                  (case s3Upload opts of
                     None \<Rightarrow> (Inr result, w2)
                   | Some bucket \<Rightarrow>
                       (let wb = record_action UploadReport w2
                        in case uploadReportToS3 env bucket of
                             Inl msg \<Rightarrow> (Inl (UploadFailed msg), wb)
                           | Inr s3Url \<Rightarrow> (Inr result, wb)))))"

text \<open>\<open>analyze\<close> once the local path is known: the verbose block, then
  \<open>try\<close>/\<open>catch\<close>/\<open>finally\<close>. On an error the \<open>catch\<close> block cleans up and throws the
  error again, then the \<open>finally\<close> block cleans up once more; on success only the \<open>finally\<close>
  block runs.\<close>

definition analyze_local ::
  "environment \<Rightarrow> EBUStandards \<Rightarrow> AudioQCOptions \<Rightarrow> string \<Rightarrow> bool \<Rightarrow> world \<Rightarrow>
     (error + EBUComplianceResult) \<times> world" where
  "analyze_local env standards opts localFilePath isTemporaryFile w =
     (let (r1, w1) =
            (if verbose opts then verbose_checks env opts localFilePath isTemporaryFile w
             else (None, w))
      in case r1 of
           Some e \<Rightarrow> (Inl e, w1)
         | None \<Rightarrow>
             (case measure_and_report env standards opts localFilePath w1 of
                (Inl e, w2) \<Rightarrow>
                  (Inl e, cleanup env isTemporaryFile localFilePath
                            (cleanup env isTemporaryFile localFilePath w2))
              | (Inr result, w2) \<Rightarrow>
                  (Inr result, cleanup env isTemporaryFile localFilePath w2)))"

definition analyze ::
  "environment \<Rightarrow> EBUStandards \<Rightarrow> AudioQCOptions \<Rightarrow> world \<Rightarrow>
     (error + EBUComplianceResult) \<times> world" where
  "analyze env standards opts w =
     (if isS3Url (inputFile opts) then
        (let w1 = record_action (Download (inputFile opts)) w
         in case downloadFileStatic env (inputFile opts) of
              Inl msg \<Rightarrow> (Inl (DownloadFailed msg), w1)
            | Inr localFilePath \<Rightarrow>
                analyze_local env standards opts localFilePath True
                  (w1\<lparr>files := insert localFilePath (files w1)\<rparr>))
      else if inputFile opts \<notin> files w then (Inl (InputFileDoesNotExist (inputFile opts)), w)
      else analyze_local env standards opts (inputFile opts) False w)"

text \<open>The first statement of the action of the command \<open>analyze\<close> of the command line: the
  exit code when it stops there.\<close>

definition cli_input_check :: "string \<Rightarrow> world \<Rightarrow> int option" where
  "cli_input_check input w =
     (if \<not> isS3Url input \<and> input \<notin> files w then Some 1 else None)"

subsection \<open>Three runs of the environment\<close>

text \<open>
  An environment in which every collaborator succeeds: the download creates
  \<open>/tmp/audio-qc-1-video.mp4\<close>, the inspections find one audio stream, the measurement process
  exits with code 0 and a diagnostic text in the filter vocabulary. In the second one the
  inspection of the container is rejected, as it is when the inspection process exits with a
  code other than 0; in the third one the listing of the audio streams is rejected, as it is
  when the structured output of the inspection process cannot be parsed.
\<close>

definition all_succeed :: environment where
  "all_succeed =
     \<lparr>downloadFileStatic = (\<lambda>url. Inr ''/tmp/audio-qc-1-video.mp4''),
      extname = (\<lambda>p. ''.mp4''),
      getContainerInfo =
        (\<lambda>p. Inr \<lparr>hasVideo = True, hasAudio = True, audioStreamCount = 1, videoStreamCount = 1\<rparr>),
      getAudioStreams = (\<lambda>p. Inr [\<lparr>stream_index = 1, codecName = ''aac'', channels = 2\<rparr>]),
      run_ffmpeg =
        (\<lambda>source idx. Exited (Some 0)
           ''Input Integrated: -23.0 LUFS\<newline>Input LRA: 5.0 LU\<newline>Input True Peak: -2.0 dBTP''),
      unlink_fails = (\<lambda>p. False),
      writeFile_fails = (\<lambda>p. False),
      uploadReportToS3 = (\<lambda>bucket. Inr ''s3://reports/report.json''),
      clock = ''2024-01-15T10:30:00.000Z''\<rparr>"

definition inspection_rejected :: environment where
  "inspection_rejected =
     all_succeed\<lparr>getContainerInfo := (\<lambda>p. Inl ''FFprobe process failed with code 1: '')\<rparr>"

definition stream_listing_rejected :: environment where
  "stream_listing_rejected =
     all_succeed\<lparr>getAudioStreams :=
       (\<lambda>p. Inl ''Failed to parse FFprobe output: SyntaxError: Unexpected end of JSON input'')\<rparr>"

definition empty_world :: world where
  "empty_world = \<lparr>files = {}, actions = []\<rparr>"

declare rx_match.simps [simp del]

declare bit_length.simps [simp del]


section \<open>Properties of the measurement parsers\<close>

subsection \<open>Lines that leave a field alone\<close>

lemma FFmpegUtils_keeps_integrated:
  "\<forall>k\<in>set ls. \<not> str_includes k ''Input Integrated:'' \<Longrightarrow>
   integratedLoudness (foldl FFmpegUtils_line m ls) = integratedLoudness m"
  by (induction ls arbitrary: m) (auto simp: FFmpegUtils_line_def split: option.splits)

lemma FFmpegUtils_keeps_range:
  "\<forall>k\<in>set ls. \<not> str_includes k ''Input LRA:'' \<Longrightarrow>
   loudnessRange (foldl FFmpegUtils_line m ls) = loudnessRange m"
  by (induction ls arbitrary: m) (auto simp: FFmpegUtils_line_def split: option.splits)

lemma FFmpegUtils_keeps_peak:
  "\<forall>k\<in>set ls. \<not> str_includes k ''Input True Peak:'' \<Longrightarrow>
   truePeakMax (foldl FFmpegUtils_line m ls) = truePeakMax m"
  by (induction ls arbitrary: m) (auto simp: FFmpegUtils_line_def split: option.splits)


lemma StreamingAnalyzer_keeps_integrated:
  "\<forall>k\<in>set ls. \<not> str_includes k ''Integrated loudness:'' \<Longrightarrow>
   integratedLoudness (foldl StreamingAnalyzer_line m ls) = integratedLoudness m"
  by (induction ls arbitrary: m) (auto simp: StreamingAnalyzer_line_def split: option.splits)

lemma StreamingAnalyzer_keeps_range:
  "\<forall>k\<in>set ls. \<not> str_includes k ''Loudness range:'' \<Longrightarrow>
   loudnessRange (foldl StreamingAnalyzer_line m ls) = loudnessRange m"
  by (induction ls arbitrary: m) (auto simp: StreamingAnalyzer_line_def split: option.splits)

lemma StreamingAnalyzer_keeps_peak:
  "\<forall>k\<in>set ls. \<not> str_includes k ''True peak:'' \<Longrightarrow>
   truePeakMax (foldl StreamingAnalyzer_line m ls) = truePeakMax m"
  by (induction ls arbitrary: m) (auto simp: StreamingAnalyzer_line_def split: option.splits)

lemma StreamingAnalyzer_keeps_momentary:
  "\<forall>k\<in>set ls. \<not> str_includes k ''Momentary max:'' \<Longrightarrow>
   momentaryMax (foldl StreamingAnalyzer_line m ls) = momentaryMax m"
  by (induction ls arbitrary: m) (auto simp: StreamingAnalyzer_line_def split: option.splits)

lemma StreamingAnalyzer_keeps_shortTerm:
  "\<forall>k\<in>set ls. \<not> str_includes k ''Short-term max:'' \<Longrightarrow>
   shortTermMax (foldl StreamingAnalyzer_line m ls) = shortTermMax m"
  by (induction ls arbitrary: m) (auto simp: StreamingAnalyzer_line_def split: option.splits)


subsection \<open>Rounding\<close>

text \<open>Values of \<open>to_double\<close> and \<open>parseFloat\<close>: a decimal fraction that is no double, two
  ties, a text of twenty significant digits, and a text of 310 digits.\<close>

lemma to_double_examples:
  "to_double (1 / 10) = Fin (3602879701896397 / of_int (2 ^ 55))"
  "to_double (of_int (2 ^ 53 + 1)) = Fin (of_int (2 ^ 53))"
  "to_double (of_int (2 ^ 53 + 3)) = Fin (of_int (2 ^ 53 + 4))"
  "to_double (7 / 2) = Fin (7 / 2)"
  by code_simp+

lemma parseFloat_examples:
  "parseFloat ''-25.2'' = Fin (- 7093169413108531 / of_int (2 ^ 48))"
  "parseFloat ''-24.00000000000000001'' = Fin (- 24)"
  "parseFloat ''-23'' = Fin (- 23)"
  "parseFloat ''8.1'' = Fin (4559894622712627 / of_int (2 ^ 49))"
  "parseFloat ''-'' = NaN"
  by code_simp+

lemma parseFloat_overflow: "parseFloat (replicate 310 (CHR ''9'')) = PosInfinity"
  by code_simp

text \<open>Rounding keeps the sign: a number that is not negative is rounded to a finite double
  that is not negative, or to \<open>Infinity\<close>.\<close>

lemma pow2_pos: "0 < pow2 e"
  by (simp add: pow2_def)

lemma round_half_even_nonneg: "0 \<le> num \<Longrightarrow> 0 < den \<Longrightarrow> 0 \<le> round_half_even num den"
  by (auto simp: round_half_even_def Let_def pos_imp_zdiv_nonneg_iff)

lemma to_double_pos_nonneg:
  assumes "0 < q"
  shows "to_double_pos q = PosInfinity \<or> (\<exists>r. to_double_pos q = Fin r \<and> 0 \<le> r)"
proof -
  obtain a b where ab: "quotient_of q = (a, b)" by (cases "quotient_of q")
  then have b: "0 < b" by (rule quotient_of_denom_pos)
  from ab have "q = of_int a / of_int b" by (rule quotient_of_div)
  with assms b have a: "0 < a" by (simp add: zero_less_divide_iff)
  define t where "t = max (binary_exponent q) (- 1022) - 52"
  define n where "n = (if 0 \<le> t then round_half_even a (b * 2 ^ nat t)
                       else round_half_even (a * 2 ^ nat (- t)) b)"
  have "0 \<le> n"
    unfolding n_def using a b by (auto intro!: round_half_even_nonneg)
  then have "0 \<le> of_int n * pow2 t"
    using pow2_pos [of t] by simp
  moreover have "to_double_pos q =
      (if pow2 1024 \<le> of_int n * pow2 t then PosInfinity else Fin (of_int n * pow2 t))"
    unfolding to_double_pos_def ab n_def t_def by (simp add: Let_def)
  ultimately show ?thesis by auto
qed

lemma to_double_nonneg:
  "0 \<le> q \<Longrightarrow> to_double q = PosInfinity \<or> (\<exists>r. to_double q = Fin r \<and> 0 \<le> r)"
  using to_double_pos_nonneg [of q] by (cases "q = 0") (auto simp: to_double_def)

lemma digits_val_step: "0 \<le> a \<Longrightarrow> 0 \<le> foldl (\<lambda>a c. 10 * a + int (digit_val c)) a ds"
  by (induction ds arbitrary: a) auto

lemma digits_val_nonneg: "0 \<le> digits_val ds"
  unfolding digits_val_def by (rule digits_val_step) simp

lemma parseFloat_digit_nonneg:
  assumes "is_digit c"
  shows "parseFloat (c # cs) = PosInfinity \<or> (\<exists>q. parseFloat (c # cs) = Fin q \<and> 0 \<le> q)"
proof -
  from assms have c: "c \<noteq> CHR ''-''" by (auto simp: is_digit_def)
  define fp where "fp = (case dropWhile is_digit (c # cs) of
                  [] \<Rightarrow> []
                | d # ds \<Rightarrow> if d = CHR ''.'' then takeWhile is_digit ds else [])"
  define q :: rat where
    "q = of_int (digits_val (takeWhile is_digit (c # cs) @ fp)) / of_int (10 ^ length fp)"
  have "takeWhile is_digit (c # cs) \<noteq> []" using assms by simp
  then have "parseUnsigned (c # cs) = to_double q"
    unfolding parseUnsigned_def q_def fp_def Let_def by simp
  moreover have "0 \<le> q"
    unfolding q_def using digits_val_nonneg by simp
  ultimately show ?thesis
    using to_double_nonneg [of q] c by (simp add: parseFloat_def)
qed

subsection \<open>What the matcher accepts\<close>

lemma rx_star_greedy:
  assumes "\<forall>c\<in>set ds. p c" and "s = [] \<or> \<not> p (hd s)" and "rx_match its s = Some ps"
  shows "rx_match ((p, Star) # its) (ds @ s) = Some (ds # ps)"
  using assms
proof (induction ds)
  case Nil
  then show ?case by (cases s) (auto simp: rx_match.simps(4))
next
  case (Cons c ds)
  then have "rx_match ((p, Star) # its) (ds @ s) = Some (ds # ps)" by simp
  with Cons.prems show ?case by (simp add: rx_match.simps(4))
qed

lemma rx_plus_greedy:
  assumes "ds \<noteq> []" and "\<forall>c\<in>set ds. p c" and "s = [] \<or> \<not> p (hd s)"
    and "rx_match its s = Some ps"
  shows "rx_match ((p, Plus) # its) (ds @ s) = Some (ds # ps)"
proof -
  from assms(1) obtain c cs where ds: "ds = c # cs" by (cases ds) auto
  have "rx_match ((p, Star) # its) (cs @ s) = Some (cs # ps)"
    by (rule rx_star_greedy) (use ds assms in auto)
  then show ?thesis using ds assms(2) by (simp add: rx_match.simps(5))
qed

lemma rx_opt_take:
  "p c \<Longrightarrow> rx_match its cs = Some ps \<Longrightarrow> rx_match ((p, Opt) # its) (c # cs) = Some ([c] # ps)"
  by (simp add: rx_match.simps(3))

lemma rx_opt_skip:
  "s = [] \<or> \<not> p (hd s) \<Longrightarrow> rx_match its s = Some ps \<Longrightarrow>
   rx_match ((p, Opt) # its) s = Some ([] # ps)"
  by (cases s) (auto simp: rx_match.simps(3))

lemma rx_lit:
  "rx_match its s = Some ps \<Longrightarrow> rx_match (lit u @ its) (u @ s) = Some (map (\<lambda>c. [c]) u @ ps)"
  by (induction u) (auto simp: lit_def rx_match.simps(2))

lemma rx_plus_reject:
  "s = [] \<or> \<not> p (hd s) \<Longrightarrow> rx_match ((p, Plus) # its) s = None"
  by (cases s) (auto simp: rx_match.simps(5))

lemma rx_opt_plus_reject:
  assumes "s = [] \<or> (\<not> p (hd s) \<and> (\<not> q (hd s) \<or> tl s = [] \<or> \<not> p (hd (tl s))))"
  shows "rx_match ((q, Opt) # (p, Plus) # its) s = None"
proof (cases s)
  case Nil
  then show ?thesis by (simp add: rx_match.simps(3) rx_plus_reject)
next
  case (Cons c cs)
  with assms have 1: "rx_match ((p, Plus) # its) (c # cs) = None"
    by (intro rx_plus_reject) auto
  from Cons assms have 2: "q c \<Longrightarrow> rx_match ((p, Plus) # its) cs = None"
    by (intro rx_plus_reject) (cases cs; auto)
  from Cons 1 2 show ?thesis by (simp add: rx_match.simps(3))
qed

lemma hd_append_all: "\<forall>c\<in>set ws. P c \<Longrightarrow> P x \<Longrightarrow> P (hd (ws @ x # xs))"
  by (cases ws) auto

lemma space_not_digit: "is_space c \<Longrightarrow> \<not> is_digit c \<and> c \<noteq> CHR ''.''"
  by (auto simp: is_space_def is_digit_def)

lemma digit_not_point: "is_digit c \<Longrightarrow> c \<noteq> CHR ''.'' \<and> c \<noteq> CHR ''-''"
  by (auto simp: is_digit_def)

text \<open>The part of a number pattern after the sign, on a number followed by white space and
  the unit.\<close>

lemma unsigned_number_match:
  assumes ds: "ds \<noteq> []" "\<forall>c\<in>set ds. is_digit c"
    and fr: "fr = [] \<or> (\<exists>fs. fr = CHR ''.'' # fs \<and> (\<forall>c\<in>set fs. is_digit c))"
    and ws: "\<forall>c\<in>set ws. is_space c"
    and u: "\<not> is_digit u" "\<not> is_space u" "u \<noteq> CHR ''.''"
  shows "\<exists>p1 p2 p3 ps.
           rx_match (unsigned_number @ [(is_space, Star)] @ lit (u # us))
             (ds @ fr @ ws @ (u # us) @ rest) = Some (p1 # p2 # p3 # ps) \<and>
           p1 @ p2 @ p3 = ds @ fr"
proof -
  let ?tail = "ws @ (u # us) @ rest"
  have ws': "\<forall>c\<in>set ws. \<not> is_digit c" "\<forall>c\<in>set ws. c \<noteq> CHR ''.''"
    using ws space_not_digit by blast+
  have t_digit: "\<not> is_digit (hd ?tail)"
    using hd_append_all [of ws "\<lambda>c. \<not> is_digit c" u "us @ rest"] ws' u by simp
  have t_point: "\<not> (hd ?tail = CHR ''.'')"
    using hd_append_all [of ws "\<lambda>c. c \<noteq> CHR ''.''" u "us @ rest"] ws' u by simp
  have A: "rx_match (lit (u # us) @ []) ((u # us) @ rest) = Some (map (\<lambda>c. [c]) (u # us) @ [])"
    by (rule rx_lit) (simp add: rx_match.simps(1))
  have B: "rx_match ((is_space, Star) # lit (u # us)) (ws @ (u # us) @ rest) =
           Some (ws # map (\<lambda>c. [c]) (u # us))"
    using rx_star_greedy [of ws is_space "(u # us) @ rest" "lit (u # us)"] A ws u by simp
  from fr show ?thesis
  proof
    assume f: "fr = []"
    have C: "rx_match ((is_digit, Star) # (is_space, Star) # lit (u # us)) ([] @ ?tail) =
             Some ([] # ws # map (\<lambda>c. [c]) (u # us))"
      by (rule rx_star_greedy) (use t_digit B in auto)
    have D: "rx_match ((\<lambda>c. c = CHR ''.'', Opt) # (is_digit, Star) # (is_space, Star) # lit (u # us))
               ?tail = Some ([] # [] # ws # map (\<lambda>c. [c]) (u # us))"
      by (rule rx_opt_skip) (use t_point C in auto)
    have E: "rx_match ((is_digit, Plus) # (\<lambda>c. c = CHR ''.'', Opt) # (is_digit, Star) #
               (is_space, Star) # lit (u # us)) (ds @ ?tail) =
             Some (ds # [] # [] # ws # map (\<lambda>c. [c]) (u # us))"
      by (rule rx_plus_greedy) (use ds t_digit D in auto)
    with f show ?thesis by (simp add: unsigned_number_def)
  next
    assume "\<exists>fs. fr = CHR ''.'' # fs \<and> (\<forall>c\<in>set fs. is_digit c)"
    then obtain fs where f: "fr = CHR ''.'' # fs" "\<forall>c\<in>set fs. is_digit c" by blast
    have C: "rx_match ((is_digit, Star) # (is_space, Star) # lit (u # us)) (fs @ ?tail) =
             Some (fs # ws # map (\<lambda>c. [c]) (u # us))"
      by (rule rx_star_greedy) (use f t_digit B in auto)
    have D: "rx_match ((\<lambda>c. c = CHR ''.'', Opt) # (is_digit, Star) # (is_space, Star) # lit (u # us))
               (CHR ''.'' # fs @ ?tail) = Some ([CHR ''.''] # fs # ws # map (\<lambda>c. [c]) (u # us))"
      by (rule rx_opt_take) (use C in auto)
    have np: "\<not> is_digit (CHR ''.'')" by (simp add: is_digit_def)
    have E: "rx_match ((is_digit, Plus) # (\<lambda>c. c = CHR ''.'', Opt) # (is_digit, Star) #
               (is_space, Star) # lit (u # us)) (ds @ CHR ''.'' # fs @ ?tail) =
             Some (ds # [CHR ''.''] # fs # ws # map (\<lambda>c. [c]) (u # us))"
      by (rule rx_plus_greedy) (use ds D np in auto)
    with f show ?thesis by (simp add: unsigned_number_def)
  qed
qed

lemma signed_number_match:
  assumes sg: "sg = [] \<or> sg = ''-''"
    and ds: "ds \<noteq> []" "\<forall>c\<in>set ds. is_digit c"
    and fr: "fr = [] \<or> (\<exists>fs. fr = CHR ''.'' # fs \<and> (\<forall>c\<in>set fs. is_digit c))"
    and ws: "\<forall>c\<in>set ws. is_space c"
    and u: "\<not> is_digit u" "\<not> is_space u" "u \<noteq> CHR ''.''"
  shows "\<exists>p0 p1 p2 p3 ps.
           rx_match (signed_number @ [(is_space, Star)] @ lit (u # us))
             (sg @ ds @ fr @ ws @ (u # us) @ rest) = Some (p0 # p1 # p2 # p3 # ps) \<and>
           p0 @ p1 @ p2 @ p3 = sg @ ds @ fr"
proof -
  obtain p1 p2 p3 ps where m:
    "rx_match (unsigned_number @ [(is_space, Star)] @ lit (u # us))
       (ds @ fr @ ws @ (u # us) @ rest) = Some (p1 # p2 # p3 # ps)" "p1 @ p2 @ p3 = ds @ fr"
    using unsigned_number_match [OF ds fr ws u] by blast
  have s: "signed_number = (\<lambda>c. c = CHR ''-'', Opt) # unsigned_number"
    by (simp add: signed_number_def unsigned_number_def)
  from sg show ?thesis
  proof
    assume e: "sg = []"
    from ds have "hd (ds @ fr @ ws @ (u # us) @ rest) \<noteq> CHR ''-''"
      using digit_not_point by (cases ds) auto
    then have "rx_match (signed_number @ [(is_space, Star)] @ lit (u # us))
       (ds @ fr @ ws @ (u # us) @ rest) = Some ([] # p1 # p2 # p3 # ps)"
      unfolding s using m(1) by (simp add: rx_opt_skip)
    with e m(2) show ?thesis by simp
  next
    assume e: "sg = ''-''"
    have "rx_match (signed_number @ [(is_space, Star)] @ lit (u # us))
       (CHR ''-'' # ds @ fr @ ws @ (u # us) @ rest) = Some ([CHR ''-''] # p1 # p2 # p3 # ps)"
      unfolding s using m(1) by (simp add: rx_opt_take)
    with e m(2) show ?thesis by simp
  qed
qed

text \<open>No match starts in a prefix without digits.\<close>

lemma rx_search_skip_unsigned:
  "\<forall>c\<in>set pre. \<not> is_digit c \<Longrightarrow>
   rx_search (unsigned_number @ its) (pre @ s) = rx_search (unsigned_number @ its) s"
proof (induction pre)
  case Nil
  then show ?case by simp
next
  case (Cons c pre)
  then have "rx_match ((is_digit, Plus) # (tl unsigned_number @ its)) (c # pre @ s) = None"
    by (intro rx_plus_reject) simp
  with Cons show ?case by (simp add: unsigned_number_def)
qed

lemma rx_search_skip_signed:
  "\<forall>c\<in>set pre. \<not> is_digit c \<Longrightarrow> pre = [] \<or> last pre \<noteq> CHR ''-'' \<Longrightarrow>
   rx_search (signed_number @ its) (pre @ s) = rx_search (signed_number @ its) s"
proof (induction pre)
  case Nil
  then show ?case by simp
next
  case (Cons c pre)
  have items: "signed_number @ its =
    (\<lambda>c. c = CHR ''-'', Opt) # (is_digit, Plus) # (tl (tl signed_number) @ its)"
    by (simp add: signed_number_def)
  from Cons.prems have nd: "\<not> is_digit c" by simp
  have next_char: "c = CHR ''-'' \<Longrightarrow> pre \<noteq> [] \<and> \<not> is_digit (hd (pre @ s))"
    using Cons.prems by (cases pre) auto
  have "rx_match (signed_number @ its) (c # pre @ s) = None"
    unfolding items by (rule rx_opt_plus_reject) (use nd next_char in auto)
  moreover have "pre = [] \<or> last pre \<noteq> CHR ''-''"
    using Cons.prems by (cases pre) auto
  ultimately show ?case using Cons by simp
qed

lemma rx_search_at_start:
  "rx_match re s = Some ps \<Longrightarrow> rx_search re s = Some ps"
  by (cases s) simp_all

text \<open>The patterns on a line: a prefix without digits, the number, white space, the unit.\<close>

lemma match_LUFS_accepts:
  assumes "\<forall>c\<in>set pre. \<not> is_digit c" "pre = [] \<or> last pre \<noteq> CHR ''-''"
    and "sg = [] \<or> sg = ''-''" "ds \<noteq> []" "\<forall>c\<in>set ds. is_digit c"
    and "fr = [] \<or> (\<exists>fs. fr = CHR ''.'' # fs \<and> (\<forall>c\<in>set fs. is_digit c))"
    and "\<forall>c\<in>set ws. is_space c"
  shows "match_LUFS (pre @ sg @ ds @ fr @ ws @ ''LUFS'' @ rest) = Some (sg @ ds @ fr)"
proof -
  obtain p0 p1 p2 p3 ps where m:
    "rx_match (signed_number @ [(is_space, Star)] @ lit ''LUFS'')
       (sg @ ds @ fr @ ws @ ''LUFS'' @ rest) = Some (p0 # p1 # p2 # p3 # ps)"
    "p0 @ p1 @ p2 @ p3 = sg @ ds @ fr"
    using signed_number_match [OF assms(3-7), of "CHR ''L''" "''UFS''" rest]
    by (auto simp: is_digit_def is_space_def)
  have "rx_search (signed_number @ [(is_space, Star)] @ lit ''LUFS'')
          (pre @ sg @ ds @ fr @ ws @ ''LUFS'' @ rest) = Some (p0 # p1 # p2 # p3 # ps)"
    using rx_search_skip_signed [OF assms(1,2)] rx_search_at_start [OF m(1)] by simp
  with m(2) show ?thesis by (simp add: match_LUFS_def)
qed

lemma match_dBTP_accepts:
  assumes "\<forall>c\<in>set pre. \<not> is_digit c" "pre = [] \<or> last pre \<noteq> CHR ''-''"
    and "sg = [] \<or> sg = ''-''" "ds \<noteq> []" "\<forall>c\<in>set ds. is_digit c"
    and "fr = [] \<or> (\<exists>fs. fr = CHR ''.'' # fs \<and> (\<forall>c\<in>set fs. is_digit c))"
    and "\<forall>c\<in>set ws. is_space c"
  shows "match_dBTP (pre @ sg @ ds @ fr @ ws @ ''dBTP'' @ rest) = Some (sg @ ds @ fr)"
proof -
  obtain p0 p1 p2 p3 ps where m:
    "rx_match (signed_number @ [(is_space, Star)] @ lit ''dBTP'')
       (sg @ ds @ fr @ ws @ ''dBTP'' @ rest) = Some (p0 # p1 # p2 # p3 # ps)"
    "p0 @ p1 @ p2 @ p3 = sg @ ds @ fr"
    using signed_number_match [OF assms(3-7), of "CHR ''d''" "''BTP''" rest]
    by (auto simp: is_digit_def is_space_def)
  have "rx_search (signed_number @ [(is_space, Star)] @ lit ''dBTP'')
          (pre @ sg @ ds @ fr @ ws @ ''dBTP'' @ rest) = Some (p0 # p1 # p2 # p3 # ps)"
    using rx_search_skip_signed [OF assms(1,2)] rx_search_at_start [OF m(1)] by simp
  with m(2) show ?thesis by (simp add: match_dBTP_def)
qed

lemma match_LU_accepts:
  assumes "\<forall>c\<in>set pre. \<not> is_digit c"
    and "ds \<noteq> []" "\<forall>c\<in>set ds. is_digit c"
    and "fr = [] \<or> (\<exists>fs. fr = CHR ''.'' # fs \<and> (\<forall>c\<in>set fs. is_digit c))"
    and "\<forall>c\<in>set ws. is_space c"
  shows "match_LU (pre @ ds @ fr @ ws @ ''LU'' @ rest) = Some (ds @ fr)"
proof -
  obtain p1 p2 p3 ps where m:
    "rx_match (unsigned_number @ [(is_space, Star)] @ lit ''LU'')
       (ds @ fr @ ws @ ''LU'' @ rest) = Some (p1 # p2 # p3 # ps)"
    "p1 @ p2 @ p3 = ds @ fr"
    using unsigned_number_match [OF assms(2-5), of "CHR ''L''" "''U''" rest]
    by (auto simp: is_digit_def is_space_def)
  have "rx_search (unsigned_number @ [(is_space, Star)] @ lit ''LU'')
          (pre @ ds @ fr @ ws @ ''LU'' @ rest) = Some (p1 # p2 # p3 # ps)"
    using rx_search_skip_unsigned [OF assms(1)] rx_search_at_start [OF m(1)] by simp
  with m(2) show ?thesis by (simp add: match_LU_def)
qed

text \<open>The value \<open>parseFloat\<close> gives to a captured number: the double nearest to its decimal
  value.\<close>

lemma parseUnsigned_number:
  assumes "ds \<noteq> []" "\<forall>c\<in>set ds. is_digit c"
    and "fr = [] \<or> (\<exists>fs. fr = CHR ''.'' # fs \<and> (\<forall>c\<in>set fs. is_digit c))"
  shows "parseUnsigned (ds @ fr) =
         to_double (of_int (digits_val (ds @ tl fr)) / of_int (10 ^ length (tl fr)))"
proof -
  have nd: "\<not> is_digit (CHR ''.'')" by (simp add: is_digit_def)
  from assms(3) have t: "takeWhile is_digit (ds @ fr) = ds" "dropWhile is_digit (ds @ fr) = fr"
    using assms(2) nd by (auto simp: takeWhile_append2 dropWhile_append2)
  from assms(3) have f: "(case fr of [] \<Rightarrow> [] | c # cs \<Rightarrow>
       if c = CHR ''.'' then takeWhile is_digit cs else []) = tl fr"
    by auto
  show ?thesis
    unfolding parseUnsigned_def t f Let_def using assms(1) by simp
qed

lemma parseFloat_number:
  assumes "ds \<noteq> []" "\<forall>c\<in>set ds. is_digit c"
    and "fr = [] \<or> (\<exists>fs. fr = CHR ''.'' # fs \<and> (\<forall>c\<in>set fs. is_digit c))"
  shows "parseFloat (ds @ fr) =
         to_double (of_int (digits_val (ds @ tl fr)) / of_int (10 ^ length (tl fr)))"
    and "parseFloat (''-'' @ ds @ fr) =
         negate (to_double (of_int (digits_val (ds @ tl fr)) / of_int (10 ^ length (tl fr))))"
proof -
  from assms(1,2) obtain c cs where ds: "ds = c # cs" "c \<noteq> CHR ''-''"
    using digit_not_point by (cases ds) auto
  then show "parseFloat (ds @ fr) =
         to_double (of_int (digits_val (ds @ tl fr)) / of_int (10 ^ length (tl fr)))"
    using parseUnsigned_number [OF assms] by (simp add: parseFloat_def)
  show "parseFloat (''-'' @ ds @ fr) =
         negate (to_double (of_int (digits_val (ds @ tl fr)) / of_int (10 ^ length (tl fr))))"
    using parseUnsigned_number [OF assms] by (simp add: parseFloat_def)
qed

text \<open>A number captured by the pattern of the loudness range starts with a digit.\<close>

lemma rx_plus_pieces:
  "rx_match ((p, Plus) # its) s = Some ps \<Longrightarrow> \<exists>c x xs. ps = (c # x) # xs \<and> p c"
  by (cases s) (auto simp add: rx_match.simps(5) split: list.splits if_splits option.splits)

lemma rx_search_plus_pieces:
  "rx_search ((p, Plus) # its) s = Some ps \<Longrightarrow> \<exists>c x xs. ps = (c # x) # xs \<and> p c"
proof (induction s)
  case Nil
  then show ?case by (simp add: rx_match.simps(5))
next
  case (Cons a s)
  then show ?case
    using rx_plus_pieces [of p its "a # s" ps]
    by (cases "rx_match ((p, Plus) # its) (a # s)") auto
qed

lemma match_LU_digit: "match_LU line = Some v \<Longrightarrow> \<exists>c cs. v = c # cs \<and> is_digit c"
  unfolding match_LU_def unsigned_number_def
  using rx_search_plus_pieces [of is_digit _ line] by (fastforce simp del: rx_search.simps)

subsection \<open>Lines of the filter vocabulary\<close>

lemma label_not_in_tail: "\<forall>c\<in>set s. c \<noteq> p \<Longrightarrow> \<not> str_includes s (p # ps)"
  by (induction s) auto

lemma split_on_no_sep: "sep \<notin> set s \<Longrightarrow> split_on sep s = [s]"
  by (induction s) auto

lemma digit_chars:
  "is_digit c \<Longrightarrow> c \<noteq> CHR ''I'' \<and> c \<noteq> CHR 0x0A \<and> c \<noteq> CHR ''.'' \<and> c \<noteq> CHR ''-''"
  by (auto simp: is_digit_def)

lemma number_chars:
  assumes "sg = [] \<or> sg = ''-''" "\<forall>c\<in>set ds. is_digit c"
    and "fr = [] \<or> (\<exists>fs. fr = CHR ''.'' # fs \<and> (\<forall>c\<in>set fs. is_digit c))"
  shows "\<forall>c\<in>set (sg @ ds @ fr). c \<noteq> CHR ''I'' \<and> c \<noteq> CHR 0x0A"
  using assms digit_chars by fastforce

lemma label_chars:
  "\<forall>c\<in>set ''Input Integrated: ''. \<not> is_digit c" "last ''Input Integrated: '' \<noteq> CHR ''-''"
  "\<forall>c\<in>set ''Input True Peak: ''. \<not> is_digit c" "last ''Input True Peak: '' \<noteq> CHR ''-''"
  "\<forall>c\<in>set ''Input LRA: ''. \<not> is_digit c" "\<forall>c\<in>set ''Input LRA: -''. \<not> is_digit c"
  "\<forall>c\<in>set '' ''. is_space c"
  by (simp_all add: is_digit_def is_space_def)

lemma FFmpegUtils_integrated_line:
  assumes "sg = [] \<or> sg = ''-''" "ds \<noteq> []" "\<forall>c\<in>set ds. is_digit c"
    and "fr = [] \<or> (\<exists>fs. fr = CHR ''.'' # fs \<and> (\<forall>c\<in>set fs. is_digit c))"
  shows "integratedLoudness (FFmpegUtils_parseEBUOutput
           (''Input Integrated: '' @ sg @ ds @ fr @ '' LUFS'')) = parseFloat (sg @ ds @ fr)"
proof -
  let ?line = "''Input Integrated: '' @ sg @ ds @ fr @ '' LUFS''"
  have "match_LUFS (''Input Integrated: '' @ sg @ ds @ fr @ '' '' @ ''LUFS'' @ []) =
        Some (sg @ ds @ fr)"
    by (rule match_LUFS_accepts) (use assms label_chars in blast)+
  then have m: "match_LUFS ?line = Some (sg @ ds @ fr)" by simp
  have i: "str_includes ?line ''Input Integrated:''" by simp
  have "CHR 0x0A \<notin> set ?line"
    using number_chars [OF assms(1,3,4)] by auto
  then have "split_on (CHR 0x0A) ?line = [?line]" by (rule split_on_no_sep)
  then have "FFmpegUtils_parseEBUOutput ?line = FFmpegUtils_line zero_metrics ?line"
    by (simp only: FFmpegUtils_parseEBUOutput_def foldl.simps)
  also have "integratedLoudness \<dots> = parseFloat (sg @ ds @ fr)"
    by (simp only: FFmpegUtils_line_def i m if_True option.case) simp
  finally show ?thesis .
qed

lemma FFmpegUtils_peak_line:
  assumes "sg = [] \<or> sg = ''-''" "ds \<noteq> []" "\<forall>c\<in>set ds. is_digit c"
    and "fr = [] \<or> (\<exists>fs. fr = CHR ''.'' # fs \<and> (\<forall>c\<in>set fs. is_digit c))"
  shows "truePeakMax (FFmpegUtils_parseEBUOutput
           (''Input True Peak: '' @ sg @ ds @ fr @ '' dBTP'')) = parseFloat (sg @ ds @ fr)"
proof -
  let ?tail = "sg @ ds @ fr @ '' dBTP''"
  let ?line = "''Input True Peak: '' @ ?tail"
  have "match_dBTP (''Input True Peak: '' @ sg @ ds @ fr @ '' '' @ ''dBTP'' @ []) =
        Some (sg @ ds @ fr)"
    by (rule match_dBTP_accepts) (use assms label_chars in blast)+
  then have m: "match_dBTP ?line = Some (sg @ ds @ fr)" by simp
  have t: "\<forall>c\<in>set ?tail. c \<noteq> CHR ''I''"
    using number_chars [OF assms(1,3,4)] by auto
  have n: "\<not> str_includes ?line ''Input Integrated:''" "\<not> str_includes ?line ''Input LRA:''"
    using label_not_in_tail [OF t] by simp_all
  have i: "str_includes ?line ''Input True Peak:''" by simp
  have "CHR 0x0A \<notin> set ?line"
    using number_chars [OF assms(1,3,4)] by auto
  then have "split_on (CHR 0x0A) ?line = [?line]" by (rule split_on_no_sep)
  then have "FFmpegUtils_parseEBUOutput ?line = FFmpegUtils_line zero_metrics ?line"
    by (simp only: FFmpegUtils_parseEBUOutput_def foldl.simps)
  also have "truePeakMax \<dots> = parseFloat (sg @ ds @ fr)"
    by (simp only: FFmpegUtils_line_def i n m if_True if_False option.case) simp
  finally show ?thesis .
qed

lemma FFmpegUtils_range_line:
  assumes "sg = [] \<or> sg = ''-''" "ds \<noteq> []" "\<forall>c\<in>set ds. is_digit c"
    and "fr = [] \<or> (\<exists>fs. fr = CHR ''.'' # fs \<and> (\<forall>c\<in>set fs. is_digit c))"
  shows "loudnessRange (FFmpegUtils_parseEBUOutput
           (''Input LRA: '' @ sg @ ds @ fr @ '' LU'')) = parseFloat (ds @ fr)"
proof -
  let ?tail = "sg @ ds @ fr @ '' LU''"
  let ?line = "''Input LRA: '' @ ?tail"
  have "\<forall>c\<in>set (''Input LRA: '' @ sg). \<not> is_digit c"
    using assms(1) label_chars(5,6) by auto
  then have "match_LU ((''Input LRA: '' @ sg) @ ds @ fr @ '' '' @ ''LU'' @ []) = Some (ds @ fr)"
    by (rule match_LU_accepts) (use assms label_chars in blast)+
  then have m: "match_LU ?line = Some (ds @ fr)" by simp
  have t: "\<forall>c\<in>set ?tail. c \<noteq> CHR ''I''"
    using number_chars [OF assms(1,3,4)] by auto
  have n: "\<not> str_includes ?line ''Input Integrated:''"
    using label_not_in_tail [OF t] by simp
  have i: "str_includes ?line ''Input LRA:''" by simp
  have "CHR 0x0A \<notin> set ?line"
    using number_chars [OF assms(1,3,4)] by auto
  then have "split_on (CHR 0x0A) ?line = [?line]" by (rule split_on_no_sep)
  then have "FFmpegUtils_parseEBUOutput ?line = FFmpegUtils_line zero_metrics ?line"
    by (simp only: FFmpegUtils_parseEBUOutput_def foldl.simps)
  also have "loudnessRange \<dots> = parseFloat (ds @ fr)"
    by (simp only: FFmpegUtils_line_def i n m if_True if_False option.case) simp
  finally show ?thesis .
qed

subsection \<open>One vocabulary for each parser\<close>

lemma filter_text_by_FFmpegUtils:
  "FFmpegUtils_parseEBUOutput
     ''Input Integrated: -25.2 LUFS\<newline>Input LRA: 8.1 LU\<newline>Input True Peak: -0.5 dBTP'' =
   \<lparr>integratedLoudness = parseFloat ''-25.2'', loudnessRange = parseFloat ''8.1'',
    truePeakMax = Fin (- 0.5), momentaryMax = Fin 0, shortTermMax = Fin 0\<rparr>"
  by code_simp

lemma summary_text_by_StreamingAnalyzer:
  "StreamingAnalyzer_parseEBUOutput
     ''Integrated loudness: -25.2 LUFS\<newline>Loudness range: 8.1 LU\<newline>True peak: -0.5 dBTP\<newline>Momentary max: -18.7 LUFS\<newline>Short-term max: -20.1 LUFS'' =
   \<lparr>integratedLoudness = parseFloat ''-25.2'', loudnessRange = parseFloat ''8.1'',
    truePeakMax = Fin (- 0.5), momentaryMax = parseFloat ''-18.7'',
    shortTermMax = parseFloat ''-20.1''\<rparr>"
  by code_simp











subsection \<open>Duplicate lines\<close>

lemma two_filter_lines_by_FFmpegUtils:
  "integratedLoudness (FFmpegUtils_parseEBUOutput
      ''Input Integrated: -25.2 LUFS\<newline>Input Integrated: -20.0 LUFS'') = Fin (-20)"
  by code_simp

lemma two_summary_lines_by_StreamingAnalyzer:
  "integratedLoudness (StreamingAnalyzer_parseEBUOutput
      ''Integrated loudness: -25.2 LUFS\<newline>Integrated loudness: -20.0 LUFS'') = Fin (-20)"
  by code_simp

lemma first_value_of_two: "parseFloat ''-25.2'' = Fin (- 7093169413108531 / of_int (2 ^ 48))"
  by code_simp

text \<open>
  Claim C3, as stated, fails: of two lines with the label of the integrated loudness, the value
  of the second one is returned, not -25.2 of the first (nor the double nearest to it, which
  \<open>parseFloat\<close> reads from the first line).
\<close>

theorem C3_counterexample:
  "integratedLoudness (FFmpegUtils_parseEBUOutput
      ''Input Integrated: -25.2 LUFS\<newline>Input Integrated: -20.0 LUFS'') \<noteq> Fin (-25.2) \<and>
   integratedLoudness (StreamingAnalyzer_parseEBUOutput
      ''Integrated loudness: -25.2 LUFS\<newline>Integrated loudness: -20.0 LUFS'') \<noteq> Fin (-25.2) \<and>
   integratedLoudness (FFmpegUtils_parseEBUOutput
      ''Input Integrated: -25.2 LUFS\<newline>Input Integrated: -20.0 LUFS'') \<noteq> parseFloat ''-25.2'' \<and>
   integratedLoudness (StreamingAnalyzer_parseEBUOutput
      ''Integrated loudness: -25.2 LUFS\<newline>Integrated loudness: -20.0 LUFS'') \<noteq> parseFloat ''-25.2''"
  by (simp add: two_filter_lines_by_FFmpegUtils two_summary_lines_by_StreamingAnalyzer
      first_value_of_two)

text \<open>
  Claim C3, amended: the last match per label wins. When the text splits into the lines
  \<open>before\<close>, a line \<open>l\<close> and the lines \<open>after\<close>, \<open>l\<close> reaches the branch of a label and its
  number pattern matches, and no line after \<open>l\<close> carries that label, then the field holds the
  number of \<open>l\<close>, whatever the lines before it say. This holds for each of the three labels of
  \<open>FFmpegUtils.parseEBUOutput\<close> and the five of \<open>StreamingAnalyzer.parseEBUOutput\<close>.
\<close>

theorem C3_last_labelled_line_wins:
  assumes "split_on (CHR 0x0A) output = before @ l # after"
  shows
    "(str_includes l ''Input Integrated:'' \<and> match_LUFS l = Some v \<and>
      (\<forall>k\<in>set after. \<not> str_includes k ''Input Integrated:'') \<longrightarrow>
      integratedLoudness (FFmpegUtils_parseEBUOutput output) = parseFloat v) \<and>
     (\<not> str_includes l ''Input Integrated:'' \<and> str_includes l ''Input LRA:'' \<and>
      match_LU l = Some v \<and> (\<forall>k\<in>set after. \<not> str_includes k ''Input LRA:'') \<longrightarrow>
      loudnessRange (FFmpegUtils_parseEBUOutput output) = parseFloat v) \<and>
     (\<not> str_includes l ''Input Integrated:'' \<and> \<not> str_includes l ''Input LRA:'' \<and>
      str_includes l ''Input True Peak:'' \<and> match_dBTP l = Some v \<and>
      (\<forall>k\<in>set after. \<not> str_includes k ''Input True Peak:'') \<longrightarrow>
      truePeakMax (FFmpegUtils_parseEBUOutput output) = parseFloat v) \<and>
     (str_includes l ''Integrated loudness:'' \<and> match_LUFS l = Some v \<and>
      (\<forall>k\<in>set after. \<not> str_includes k ''Integrated loudness:'') \<longrightarrow>
      integratedLoudness (StreamingAnalyzer_parseEBUOutput output) = parseFloat v) \<and>
     (\<not> str_includes l ''Integrated loudness:'' \<and> str_includes l ''Loudness range:'' \<and>
      match_LU l = Some v \<and> (\<forall>k\<in>set after. \<not> str_includes k ''Loudness range:'') \<longrightarrow>
      loudnessRange (StreamingAnalyzer_parseEBUOutput output) = parseFloat v) \<and>
     (\<not> str_includes l ''Integrated loudness:'' \<and> \<not> str_includes l ''Loudness range:'' \<and>
      str_includes l ''True peak:'' \<and> match_dBTP l = Some v \<and>
      (\<forall>k\<in>set after. \<not> str_includes k ''True peak:'') \<longrightarrow>
      truePeakMax (StreamingAnalyzer_parseEBUOutput output) = parseFloat v) \<and>
     (\<not> str_includes l ''Integrated loudness:'' \<and> \<not> str_includes l ''Loudness range:'' \<and>
      \<not> str_includes l ''True peak:'' \<and> str_includes l ''Momentary max:'' \<and>
      match_LUFS l = Some v \<and> (\<forall>k\<in>set after. \<not> str_includes k ''Momentary max:'') \<longrightarrow>
      momentaryMax (StreamingAnalyzer_parseEBUOutput output) = parseFloat v) \<and>
     (\<not> str_includes l ''Integrated loudness:'' \<and> \<not> str_includes l ''Loudness range:'' \<and>
      \<not> str_includes l ''True peak:'' \<and> \<not> str_includes l ''Momentary max:'' \<and>
      str_includes l ''Short-term max:'' \<and> match_LUFS l = Some v \<and>
      (\<forall>k\<in>set after. \<not> str_includes k ''Short-term max:'') \<longrightarrow>
      shortTermMax (StreamingAnalyzer_parseEBUOutput output) = parseFloat v)"
proof -
  have F: "FFmpegUtils_parseEBUOutput output =
           foldl FFmpegUtils_line (FFmpegUtils_line (foldl FFmpegUtils_line zero_metrics before) l) after"
    by (simp add: FFmpegUtils_parseEBUOutput_def assms)
  have S: "StreamingAnalyzer_parseEBUOutput output =
           foldl StreamingAnalyzer_line
             (StreamingAnalyzer_line (foldl StreamingAnalyzer_line zero_metrics before) l) after"
    by (simp add: StreamingAnalyzer_parseEBUOutput_def assms)
  show ?thesis
  proof (intro conjI impI; elim conjE)
    assume "str_includes l ''Input Integrated:''" "match_LUFS l = Some v"
      "\<forall>k\<in>set after. \<not> str_includes k ''Input Integrated:''"
    then show "integratedLoudness (FFmpegUtils_parseEBUOutput output) = parseFloat v"
      by (simp add: F FFmpegUtils_keeps_integrated FFmpegUtils_line_def)
  next
    assume "\<not> str_includes l ''Input Integrated:''" "str_includes l ''Input LRA:''"
      "match_LU l = Some v" "\<forall>k\<in>set after. \<not> str_includes k ''Input LRA:''"
    then show "loudnessRange (FFmpegUtils_parseEBUOutput output) = parseFloat v"
      by (simp add: F FFmpegUtils_keeps_range FFmpegUtils_line_def)
  next
    assume "\<not> str_includes l ''Input Integrated:''" "\<not> str_includes l ''Input LRA:''"
      "str_includes l ''Input True Peak:''" "match_dBTP l = Some v"
      "\<forall>k\<in>set after. \<not> str_includes k ''Input True Peak:''"
    then show "truePeakMax (FFmpegUtils_parseEBUOutput output) = parseFloat v"
      by (simp add: F FFmpegUtils_keeps_peak FFmpegUtils_line_def)
  next
    assume "str_includes l ''Integrated loudness:''" "match_LUFS l = Some v"
      "\<forall>k\<in>set after. \<not> str_includes k ''Integrated loudness:''"
    then show "integratedLoudness (StreamingAnalyzer_parseEBUOutput output) = parseFloat v"
      by (simp add: S StreamingAnalyzer_keeps_integrated StreamingAnalyzer_line_def)
  next
    assume "\<not> str_includes l ''Integrated loudness:''" "str_includes l ''Loudness range:''"
      "match_LU l = Some v" "\<forall>k\<in>set after. \<not> str_includes k ''Loudness range:''"
    then show "loudnessRange (StreamingAnalyzer_parseEBUOutput output) = parseFloat v"
      by (simp add: S StreamingAnalyzer_keeps_range StreamingAnalyzer_line_def)
  next
    assume "\<not> str_includes l ''Integrated loudness:''" "\<not> str_includes l ''Loudness range:''"
      "str_includes l ''True peak:''" "match_dBTP l = Some v"
      "\<forall>k\<in>set after. \<not> str_includes k ''True peak:''"
    then show "truePeakMax (StreamingAnalyzer_parseEBUOutput output) = parseFloat v"
      by (simp add: S StreamingAnalyzer_keeps_peak StreamingAnalyzer_line_def)
  next
    assume "\<not> str_includes l ''Integrated loudness:''" "\<not> str_includes l ''Loudness range:''"
      "\<not> str_includes l ''True peak:''" "str_includes l ''Momentary max:''"
      "match_LUFS l = Some v" "\<forall>k\<in>set after. \<not> str_includes k ''Momentary max:''"
    then show "momentaryMax (StreamingAnalyzer_parseEBUOutput output) = parseFloat v"
      by (simp add: S StreamingAnalyzer_keeps_momentary StreamingAnalyzer_line_def)
  next
    assume "\<not> str_includes l ''Integrated loudness:''" "\<not> str_includes l ''Loudness range:''"
      "\<not> str_includes l ''True peak:''" "\<not> str_includes l ''Momentary max:''"
      "str_includes l ''Short-term max:''" "match_LUFS l = Some v"
      "\<forall>k\<in>set after. \<not> str_includes k ''Short-term max:''"
    then show "shortTermMax (StreamingAnalyzer_parseEBUOutput output) = parseFloat v"
      by (simp add: S StreamingAnalyzer_keeps_shortTerm StreamingAnalyzer_line_def)
  qed
qed

lemma two_filter_lines_split:
  "split_on (CHR 0x0A) ''Input Integrated: -25.2 LUFS\<newline>Input Integrated: -20.0 LUFS'' =
   [''Input Integrated: -25.2 LUFS''] @ ''Input Integrated: -20.0 LUFS'' # []"
  by code_simp

lemma second_filter_line_matches:
  "str_includes ''Input Integrated: -20.0 LUFS'' ''Input Integrated:'' \<and>
   match_LUFS ''Input Integrated: -20.0 LUFS'' = Some ''-20.0''"
  by code_simp

lemma parseFloat_minus_20: "parseFloat ''-20.0'' = Fin (-20)"
  by code_simp

text \<open>The text of two lines with the same label, split at its second line.\<close>

theorem C3_last_labelled_line_wins_witness:
  "split_on (CHR 0x0A) ''Input Integrated: -25.2 LUFS\<newline>Input Integrated: -20.0 LUFS'' =
     [''Input Integrated: -25.2 LUFS''] @ ''Input Integrated: -20.0 LUFS'' # [] \<and>
   str_includes ''Input Integrated: -20.0 LUFS'' ''Input Integrated:'' \<and>
   match_LUFS ''Input Integrated: -20.0 LUFS'' = Some ''-20.0'' \<and>
   integratedLoudness (FFmpegUtils_parseEBUOutput
      ''Input Integrated: -25.2 LUFS\<newline>Input Integrated: -20.0 LUFS'') = parseFloat ''-20.0'' \<and>
   parseFloat ''-20.0'' = Fin (-20)"
  using C3_last_labelled_line_wins [OF two_filter_lines_split, of "''-20.0''"]
    two_filter_lines_split second_filter_line_matches parseFloat_minus_20
  by simp

subsection \<open>Signs\<close>

lemma range_values_by_FFmpegUtils:
  "loudnessRange (FFmpegUtils_parseEBUOutput ''Input LRA: -3.5 LU'') = Fin 3.5"
  "loudnessRange (StreamingAnalyzer_parseEBUOutput ''Loudness range: -3.5 LU'') = Fin 3.5"
  by code_simp+

text \<open>
  Claim C7, as stated, fails: from \<open>Input LRA: -3.5 LU\<close> the loudness range 3.5 is extracted,
  the sign is lost; the same holds for the summary label. (3.5 and -3.5 are doubles.)
\<close>

theorem C7_counterexample:
  "loudnessRange (FFmpegUtils_parseEBUOutput ''Input LRA: -3.5 LU'') \<noteq> Fin (-3.5) \<and>
   loudnessRange (StreamingAnalyzer_parseEBUOutput ''Loudness range: -3.5 LU'') \<noteq> Fin (-3.5)"
  by (simp add: range_values_by_FFmpegUtils)

text \<open>
  Claim C7, amended. Take any number: an optional minus sign \<open>sg\<close>, digits \<open>ds\<close> and an
  optional fractional part \<open>fr\<close> (a point and digits, possibly none). On the line of the
  integrated loudness and on the line of the true peak the number is extracted with its sign;
  on the line of the loudness range it is extracted without it, the pattern having no sign.
  \<open>parseFloat\<close> gives the captured text the double nearest to its decimal value (\<open>Infinity\<close>
  for a value too large for a double), negated when the text starts with the minus sign. The
  same holds for the three patterns on any line where a prefix without digits (not ending in a
  minus sign) comes before the number and white space between it and the unit. A number
  captured for the loudness range starts with a digit, and its value is never negative: it
  is a finite double that is 0 or more, or \<open>Infinity\<close>.
\<close>

theorem C7_sign_kept_except_for_loudness_range:
  assumes "sg = [] \<or> sg = ''-''" and "ds \<noteq> []" and "\<forall>c\<in>set ds. is_digit c"
    and "fr = [] \<or> (\<exists>fs. fr = CHR ''.'' # fs \<and> (\<forall>c\<in>set fs. is_digit c))"
  shows
    "integratedLoudness (FFmpegUtils_parseEBUOutput
       (''Input Integrated: '' @ sg @ ds @ fr @ '' LUFS'')) = parseFloat (sg @ ds @ fr) \<and>
     truePeakMax (FFmpegUtils_parseEBUOutput
       (''Input True Peak: '' @ sg @ ds @ fr @ '' dBTP'')) = parseFloat (sg @ ds @ fr) \<and>
     loudnessRange (FFmpegUtils_parseEBUOutput
       (''Input LRA: '' @ sg @ ds @ fr @ '' LU'')) = parseFloat (ds @ fr) \<and>
     parseFloat (ds @ fr) =
       to_double (of_int (digits_val (ds @ tl fr)) / of_int (10 ^ length (tl fr))) \<and>
     parseFloat (''-'' @ ds @ fr) =
       negate (to_double (of_int (digits_val (ds @ tl fr)) / of_int (10 ^ length (tl fr)))) \<and>
     (\<forall>pre ws rest.
        (\<forall>c\<in>set pre. \<not> is_digit c) \<and> (pre = [] \<or> last pre \<noteq> CHR ''-'') \<and>
        (\<forall>c\<in>set ws. is_space c) \<longrightarrow>
        match_LUFS (pre @ sg @ ds @ fr @ ws @ ''LUFS'' @ rest) = Some (sg @ ds @ fr) \<and>
        match_dBTP (pre @ sg @ ds @ fr @ ws @ ''dBTP'' @ rest) = Some (sg @ ds @ fr) \<and>
        match_LU (pre @ sg @ ds @ fr @ ws @ ''LU'' @ rest) = Some (ds @ fr)) \<and>
     (\<forall>line v. match_LU line = Some v \<longrightarrow>
        (\<exists>c cs. v = c # cs \<and> is_digit c) \<and>
        (parseFloat v = PosInfinity \<or> (\<exists>q. parseFloat v = Fin q \<and> 0 \<le> q)))"
proof -
  have g: "match_LUFS (pre @ sg @ ds @ fr @ ws @ ''LUFS'' @ rest) = Some (sg @ ds @ fr) \<and>
        match_dBTP (pre @ sg @ ds @ fr @ ws @ ''dBTP'' @ rest) = Some (sg @ ds @ fr) \<and>
        match_LU (pre @ sg @ ds @ fr @ ws @ ''LU'' @ rest) = Some (ds @ fr)"
    if h: "\<forall>c\<in>set pre. \<not> is_digit c" "pre = [] \<or> last pre \<noteq> CHR ''-''"
      "\<forall>c\<in>set ws. is_space c"
    for pre ws rest
  proof -
    have "\<not> is_digit (CHR ''-'')" by (simp add: is_digit_def)
    with h(1) assms(1) have "\<forall>c\<in>set (pre @ sg). \<not> is_digit c" by auto
    then have "match_LU ((pre @ sg) @ ds @ fr @ ws @ ''LU'' @ rest) = Some (ds @ fr)"
      using assms(2-4) h(3) by (rule match_LU_accepts)
    then show ?thesis
      using match_LUFS_accepts [OF h(1,2) assms h(3)] match_dBTP_accepts [OF h(1,2) assms h(3)]
      by simp
  qed
  have n: "(\<exists>c cs. v = c # cs \<and> is_digit c) \<and>
        (parseFloat v = PosInfinity \<or> (\<exists>q. parseFloat v = Fin q \<and> 0 \<le> q))"
    if "match_LU line = Some v" for line v
  proof -
    from that obtain c cs where v: "v = c # cs" "is_digit c"
      using match_LU_digit by blast
    with parseFloat_digit_nonneg [of c cs] show ?thesis by blast
  qed
  note p = parseFloat_number [OF assms(2-4)]
  show ?thesis
    apply (intro conjI allI impI)
             apply (rule FFmpegUtils_integrated_line [OF assms])
            apply (rule FFmpegUtils_peak_line [OF assms])
           apply (rule FFmpegUtils_range_line [OF assms])
          apply (rule p(1))
         apply (rule p(2))
        apply (elim conjE, drule (2) g, elim conjE, assumption)
       apply (elim conjE, drule (2) g, elim conjE, assumption)
      apply (elim conjE, drule (2) g, elim conjE, assumption)
     apply (drule n, elim conjE, assumption)
    apply (drule n, elim conjE, assumption)
    done
qed

lemma number_3_5:
  "''-'' = [] \<or> ''-'' = ''-''" "''3'' \<noteq> []" "\<forall>c\<in>set ''3''. is_digit c"
  "''.5'' = [] \<or> (\<exists>fs. ''.5'' = CHR ''.'' # fs \<and> (\<forall>c\<in>set fs. is_digit c))"
  by (simp_all add: is_digit_def)

text \<open>The number -3.5 on the three lines of the filter vocabulary.\<close>

theorem C7_sign_kept_except_for_loudness_range_witness:
  "integratedLoudness (FFmpegUtils_parseEBUOutput ''Input Integrated: -3.5 LUFS'') = Fin (-3.5) \<and>
   truePeakMax (FFmpegUtils_parseEBUOutput ''Input True Peak: -3.5 dBTP'') = Fin (-3.5) \<and>
   loudnessRange (FFmpegUtils_parseEBUOutput ''Input LRA: -3.5 LU'') = Fin 3.5"
proof -
  have a: "''Input Integrated: '' @ ''-'' @ ''3'' @ ''.5'' @ '' LUFS'' = ''Input Integrated: -3.5 LUFS''"
    "''Input True Peak: '' @ ''-'' @ ''3'' @ ''.5'' @ '' dBTP'' = ''Input True Peak: -3.5 dBTP''"
    "''Input LRA: '' @ ''-'' @ ''3'' @ ''.5'' @ '' LU'' = ''Input LRA: -3.5 LU''"
    by simp_all
  have v: "parseFloat (''-'' @ ''3'' @ ''.5'') = Fin (-3.5)" "parseFloat (''3'' @ ''.5'') = Fin 3.5"
    by code_simp+
  from C7_sign_kept_except_for_loudness_range [OF number_3_5]
  show ?thesis unfolding a v by blast
qed

section \<open>Properties of the format classifier\<close>

lemma split_on_nonempty: "split_on sep s \<noteq> []"
  by (induction s) (auto split: list.splits)

lemma hd_split_on_append: "sep \<notin> set p \<Longrightarrow> hd (split_on sep (p @ sep # q)) = p"
  by (induction p) (auto split: list.splits simp: split_on_nonempty)

lemma extractExtension_query:
  "CHR ''?'' \<notin> set p \<Longrightarrow> extractExtension (p @ CHR ''?'' # q) = extractExtension p"
  by (simp add: extractExtension_def hd_split_on_append split_on_no_sep)

lemma unknown_wav: "getStreamingCapability ''audio.wav'' =
   \<lparr>canStream = False, format = ''wav'', confidence = Low,
    fallbackReason = Some ''Unknown format streaming capability''\<rparr>"
  by code_simp

lemma presigned_MP4: "getStreamingCapability ''https://x/y/video.MP4?X-Amz-Signature=abc'' =
   \<lparr>canStream = True, format = ''MP4'', confidence = High, fallbackReason = None\<rparr>"
  by code_simp

text \<open>
  Claim C5, as stated, fails in the reason given for an unknown extension: it is
  \<open>Unknown format streaming capability\<close>, not \<open>unknown format\<close>.
\<close>

theorem C5_counterexample:
  "fallbackReason (getStreamingCapability ''audio.wav'') \<noteq> Some ''unknown format''"
  by (simp add: unknown_wav)

text \<open>
  Claim C5, amended: \<open>getStreamingCapability\<close> is a total function of the locator. With the
  extension taken after the last point of the locator, lower-cased: the six extensions of the
  first tier give a streamable verdict of high confidence, the three of the second tier a
  streamable verdict of medium confidence, the five of the third tier a verdict that is not
  streamable, of low confidence, with the reason of the table; every other extension gives a
  verdict that is not streamable, of low confidence, with the reason
  \<open>Unknown format streaming capability\<close>. A query string after the locator does not change
  the verdict.
\<close>

theorem C5_classifier_follows_table:
  "(toLowerCase (extractExtension url) \<in> set [''mp4'', ''mov'', ''m4v'', ''ts'', ''m2ts'', ''webm''] \<longrightarrow>
      getStreamingCapability url =
        \<lparr>canStream = True, format = extractExtension url, confidence = High,
         fallbackReason = None\<rparr>) \<and>
   (toLowerCase (extractExtension url) \<in> set [''mxf'', ''mkv'', ''3gp''] \<longrightarrow>
      getStreamingCapability url =
        \<lparr>canStream = True, format = extractExtension url, confidence = Medium,
         fallbackReason = None\<rparr>) \<and>
   (toLowerCase (extractExtension url) = ''avi'' \<longrightarrow>
      getStreamingCapability url =
        \<lparr>canStream = False, format = extractExtension url, confidence = Low,
         fallbackReason = Some ''index usually at end''\<rparr>) \<and>
   (toLowerCase (extractExtension url) = ''wmv'' \<longrightarrow>
      getStreamingCapability url =
        \<lparr>canStream = False, format = extractExtension url, confidence = Low,
         fallbackReason = Some ''poor streaming support''\<rparr>) \<and>
   (toLowerCase (extractExtension url) = ''flv'' \<longrightarrow>
      getStreamingCapability url =
        \<lparr>canStream = False, format = extractExtension url, confidence = Low,
         fallbackReason = Some ''metadata at end''\<rparr>) \<and>
   (toLowerCase (extractExtension url) = ''rm'' \<longrightarrow>
      getStreamingCapability url =
        \<lparr>canStream = False, format = extractExtension url, confidence = Low,
         fallbackReason = Some ''proprietary format''\<rparr>) \<and>
   (toLowerCase (extractExtension url) = ''rmvb'' \<longrightarrow>
      getStreamingCapability url =
        \<lparr>canStream = False, format = extractExtension url, confidence = Low,
         fallbackReason = Some ''variable bitrate issues''\<rparr>) \<and>
   (toLowerCase (extractExtension url) \<notin>
      set [''mp4'', ''mov'', ''m4v'', ''ts'', ''m2ts'', ''webm'', ''mxf'', ''mkv'', ''3gp'',
           ''avi'', ''wmv'', ''flv'', ''rm'', ''rmvb''] \<longrightarrow>
      getStreamingCapability url =
        \<lparr>canStream = False, format = extractExtension url, confidence = Low,
         fallbackReason = Some ''Unknown format streaming capability''\<rparr>) \<and>
   (CHR ''?'' \<notin> set url \<longrightarrow>
      getStreamingCapability (url @ CHR ''?'' # query) = getStreamingCapability url)"
proof -
  define e where "e = toLowerCase (extractExtension url)"
  have q: "getStreamingCapability (url @ CHR ''?'' # query) = getStreamingCapability url"
    if "CHR ''?'' \<notin> set url"
    using that by (simp add: getStreamingCapability_def extractExtension_query)
  have r: "getStreamingCapability url =
     (case map_of STREAMABLE_FORMATS e of
           None \<Rightarrow>
             \<lparr>canStream = False, format = extractExtension url, confidence = Low,
              fallbackReason = Some ''Unknown format streaming capability''\<rparr>
         | Some capability \<Rightarrow>
             \<lparr>canStream = entry_canStream capability, format = extractExtension url,
              confidence = entry_confidence capability,
              fallbackReason = entry_reason capability\<rparr>)"
    by (simp add: getStreamingCapability_def e_def Let_def)
  show ?thesis
    unfolding e_def [symmetric]
    using q unfolding r
    by (auto simp: STREAMABLE_FORMATS_def)
qed

lemma lowered_extensions:
  "toLowerCase ''MP4'' = ''mp4''"
  "toLowerCase ''Mkv'' = ''mkv''"
  "toLowerCase ''AVI'' = ''avi''"
  "toLowerCase ''wav'' = ''wav''"
  "extractExtension ''https://x/y/video.MP4'' = ''MP4''"
  "extractExtension ''movie.Mkv'' = ''Mkv''"
  "extractExtension ''clip.AVI'' = ''AVI''"
  "extractExtension ''audio.wav'' = ''wav''"
  by code_simp+

text \<open>One locator of each tier, the first with a query string, and one unknown extension.\<close>

theorem C5_classifier_follows_table_witness:
  "getStreamingCapability (''https://x/y/video.MP4'' @ CHR ''?'' # ''X-Amz-Signature=abc'') =
     \<lparr>canStream = True, format = ''MP4'', confidence = High, fallbackReason = None\<rparr> \<and>
   getStreamingCapability ''movie.Mkv'' =
     \<lparr>canStream = True, format = ''Mkv'', confidence = Medium, fallbackReason = None\<rparr> \<and>
   getStreamingCapability ''clip.AVI'' =
     \<lparr>canStream = False, format = ''AVI'', confidence = Low,
      fallbackReason = Some ''index usually at end''\<rparr> \<and>
   getStreamingCapability ''audio.wav'' =
     \<lparr>canStream = False, format = ''wav'', confidence = Low,
      fallbackReason = Some ''Unknown format streaming capability''\<rparr>"
  using C5_classifier_follows_table [of "''https://x/y/video.MP4''" "''X-Amz-Signature=abc''"]
    C5_classifier_follows_table [of "''movie.Mkv''"]
    C5_classifier_follows_table [of "''clip.AVI''"]
    C5_classifier_follows_table [of "''audio.wav''"]
  by (simp add: lowered_extensions)

section \<open>Properties of the compliance checker\<close>

lemma js_le_iff: "x \<noteq> NaN \<Longrightarrow> y \<noteq> NaN \<Longrightarrow> js_le x y = (\<not> js_gt x y)"
  by (cases x; cases y) (auto simp: js_le_def js_gt_def)

text \<open>
  Claim C9: under the broadcast standard the bounds -24 and -22 of the integrated loudness are
  inclusive. With the integrated loudness at -24 or at -22 the only violations that can be
  reported are those of the loudness range and the true peak, and metrics at a bound with the
  other two values at their limits are compliant; at -24.1 and at -21.9 the violation of the
  integrated loudness is reported, whatever the other values, and the result is not compliant.
\<close>

theorem C9_broadcast_bounds_inclusive:
  "violations (checkCompliance EBU_R128_STANDARDS now f (m\<lparr>integratedLoudness := Fin (-24)\<rparr>)) =
     (if js_gt (loudnessRange m) (Fin 7)
      then [LoudnessRangeExceedsMaximum (loudnessRange m) (Fin 7)] else []) @
     (if js_gt (truePeakMax m) (Fin (-1))
      then [TruePeakExceedsMaximum (truePeakMax m) (Fin (-1))] else []) \<and>
   violations (checkCompliance EBU_R128_STANDARDS now f (m\<lparr>integratedLoudness := Fin (-22)\<rparr>)) =
     (if js_gt (loudnessRange m) (Fin 7)
      then [LoudnessRangeExceedsMaximum (loudnessRange m) (Fin 7)] else []) @
     (if js_gt (truePeakMax m) (Fin (-1))
      then [TruePeakExceedsMaximum (truePeakMax m) (Fin (-1))] else []) \<and>
   violations (checkCompliance EBU_R128_STANDARDS now f (m\<lparr>integratedLoudness := Fin (-24.1)\<rparr>)) =
     IntegratedLoudnessOutsideRange (Fin (-24.1)) (Fin (-24)) (Fin (-22)) #
     (if js_gt (loudnessRange m) (Fin 7)
      then [LoudnessRangeExceedsMaximum (loudnessRange m) (Fin 7)] else []) @
     (if js_gt (truePeakMax m) (Fin (-1))
      then [TruePeakExceedsMaximum (truePeakMax m) (Fin (-1))] else []) \<and>
   violations (checkCompliance EBU_R128_STANDARDS now f (m\<lparr>integratedLoudness := Fin (-21.9)\<rparr>)) =
     IntegratedLoudnessOutsideRange (Fin (-21.9)) (Fin (-24)) (Fin (-22)) #
     (if js_gt (loudnessRange m) (Fin 7)
      then [LoudnessRangeExceedsMaximum (loudnessRange m) (Fin 7)] else []) @
     (if js_gt (truePeakMax m) (Fin (-1))
      then [TruePeakExceedsMaximum (truePeakMax m) (Fin (-1))] else []) \<and>
   \<not> isCompliant (checkCompliance EBU_R128_STANDARDS now f (m\<lparr>integratedLoudness := Fin (-24.1)\<rparr>)) \<and>
   \<not> isCompliant (checkCompliance EBU_R128_STANDARDS now f (m\<lparr>integratedLoudness := Fin (-21.9)\<rparr>)) \<and>
   isCompliant (checkCompliance EBU_R128_STANDARDS now f
     \<lparr>integratedLoudness = Fin (-24), loudnessRange = Fin 7, truePeakMax = Fin (-1),
      momentaryMax = Fin 0, shortTermMax = Fin 0\<rparr>) \<and>
   isCompliant (checkCompliance EBU_R128_STANDARDS now f
     \<lparr>integratedLoudness = Fin (-22), loudnessRange = Fin 7, truePeakMax = Fin (-1),
      momentaryMax = Fin 0, shortTermMax = Fin 0\<rparr>)"
  by (simp add: checkCompliance_def EBU_R128_STANDARDS_def js_gt_def Let_def)

text \<open>
  Claim C10, as stated, fails on a NaN: every comparison with it is false, so metrics whose
  integrated loudness is NaN raise no violation and are compliant, though NaN does not lie
  within the bounds.
\<close>

theorem C10_counterexample:
  "isCompliant (checkCompliance EBU_R128_STANDARDS [] []
     \<lparr>integratedLoudness = NaN, loudnessRange = Fin 0, truePeakMax = Fin (-2),
      momentaryMax = Fin 0, shortTermMax = Fin 0\<rparr>) \<and>
   \<not> (js_le (integratedLoudness_min EBU_R128_STANDARDS) NaN \<and>
      js_le NaN (integratedLoudness_max EBU_R128_STANDARDS))"
  by (simp add: checkCompliance_def EBU_R128_STANDARDS_def js_gt_def js_le_def Let_def)

text \<open>
  Claim C10, amended: for every metrics record and every standards table, \<open>isCompliant\<close> is
  true if and only if the list of violations is empty, which holds if and only if the
  integrated loudness is neither below the minimum nor above the maximum, the loudness range is
  not above its maximum and the true peak is not above its maximum, in the comparisons of the
  source language; when none of the values compared is NaN, this is: the integrated loudness
  lies within the bounds, the loudness range is at most its maximum and the true peak is at
  most its maximum. The metrics of the result are the metrics given.
\<close>

theorem C10_compliant_iff_no_violation:
  "(isCompliant (checkCompliance standards now f m) \<longleftrightarrow>
      violations (checkCompliance standards now f m) = []) \<and>
   (violations (checkCompliance standards now f m) = [] \<longleftrightarrow>
      \<not> js_lt (integratedLoudness m) (integratedLoudness_min standards) \<and>
      \<not> js_gt (integratedLoudness m) (integratedLoudness_max standards) \<and>
      \<not> js_gt (loudnessRange m) (loudnessRange_max standards) \<and>
      \<not> js_gt (truePeakMax m) (truePeak_max standards)) \<and>
   (integratedLoudness m \<noteq> NaN \<and> loudnessRange m \<noteq> NaN \<and> truePeakMax m \<noteq> NaN \<and>
    integratedLoudness_min standards \<noteq> NaN \<and> integratedLoudness_max standards \<noteq> NaN \<and>
    loudnessRange_max standards \<noteq> NaN \<and> truePeak_max standards \<noteq> NaN \<longrightarrow>
      (isCompliant (checkCompliance standards now f m) \<longleftrightarrow>
         js_le (integratedLoudness_min standards) (integratedLoudness m) \<and>
         js_le (integratedLoudness m) (integratedLoudness_max standards) \<and>
         js_le (loudnessRange m) (loudnessRange_max standards) \<and>
         js_le (truePeakMax m) (truePeak_max standards))) \<and>
   metrics (checkCompliance standards now f m) = m"
proof -
  have 1: "isCompliant (checkCompliance standards now f m) \<longleftrightarrow>
      violations (checkCompliance standards now f m) = []"
    by (simp add: checkCompliance_def Let_def)
  have 2: "violations (checkCompliance standards now f m) = [] \<longleftrightarrow>
      \<not> js_lt (integratedLoudness m) (integratedLoudness_min standards) \<and>
      \<not> js_gt (integratedLoudness m) (integratedLoudness_max standards) \<and>
      \<not> js_gt (loudnessRange m) (loudnessRange_max standards) \<and>
      \<not> js_gt (truePeakMax m) (truePeak_max standards)"
    by (simp add: checkCompliance_def Let_def)
  have 3: "metrics (checkCompliance standards now f m) = m"
    by (simp add: checkCompliance_def Let_def)
  have 4: "js_le a b = (\<not> js_lt b a)" if "a \<noteq> NaN" "b \<noteq> NaN" for a b
    using js_le_iff [OF that] by (simp add: js_gt_def)
  show ?thesis
    unfolding 1 2 3 by (auto simp: 4 js_gt_def)
qed

text \<open>Metrics within the broadcast bounds, none of them NaN, are compliant.\<close>

theorem C10_compliant_iff_no_violation_witness:
  "isCompliant (checkCompliance EBU_R128_STANDARDS [] []
     \<lparr>integratedLoudness = Fin (-23), loudnessRange = Fin 5, truePeakMax = Fin (-2),
      momentaryMax = Fin 0, shortTermMax = Fin 0\<rparr>)"
proof -
  let ?m = "\<lparr>integratedLoudness = Fin (-23), loudnessRange = Fin 5, truePeakMax = Fin (-2),
             momentaryMax = Fin 0, shortTermMax = Fin 0\<rparr>"
  have nn: "integratedLoudness ?m \<noteq> NaN \<and> loudnessRange ?m \<noteq> NaN \<and> truePeakMax ?m \<noteq> NaN \<and>
    integratedLoudness_min EBU_R128_STANDARDS \<noteq> NaN \<and>
    integratedLoudness_max EBU_R128_STANDARDS \<noteq> NaN \<and>
    loudnessRange_max EBU_R128_STANDARDS \<noteq> NaN \<and> truePeak_max EBU_R128_STANDARDS \<noteq> NaN"
    by (simp add: EBU_R128_STANDARDS_def)
  have le: "js_le (integratedLoudness_min EBU_R128_STANDARDS) (integratedLoudness ?m) \<and>
         js_le (integratedLoudness ?m) (integratedLoudness_max EBU_R128_STANDARDS) \<and>
         js_le (loudnessRange ?m) (loudnessRange_max EBU_R128_STANDARDS) \<and>
         js_le (truePeakMax ?m) (truePeak_max EBU_R128_STANDARDS)"
    by (simp add: EBU_R128_STANDARDS_def js_le_def)
  from C10_compliant_iff_no_violation [of EBU_R128_STANDARDS "[]" "[]" ?m] nn le
  show ?thesis by blast
qed

section \<open>Properties of the remote probe\<close>

lemma probe_resolved_stays:
  "resolved st = Some v \<Longrightarrow> resolved (foldl probe_handler st events) = Some v"
proof (induction events arbitrary: st)
  case Nil
  then show ?case by simp
next
  case (Cons e events)
  then have "resolved (probe_handler st e) = Some v"
    by (cases e) (simp_all add: resolve_def)
  with Cons.IH show ?case by simp
qed

lemma probe_pending:
  "resolved st = None \<Longrightarrow>
   resolved (foldl probe_handler st events) =
     (case dropWhile (\<lambda>e. e = StdoutData) events of
        [] \<Rightarrow> None
      | e # rest \<Rightarrow>
          Some (e = Close (Some 0) \<and>
                (hasOutput st \<or> takeWhile (\<lambda>e. e = StdoutData) events \<noteq> [])))"
proof (induction events arbitrary: st)
  case Nil
  then show ?case by simp
next
  case (Cons e events)
  show ?case
  proof (cases e)
    case StdoutData
    with Cons.prems have "resolved (st\<lparr>hasOutput := True\<rparr>) = None" by simp
    from Cons.IH [OF this] StdoutData show ?thesis
      by (cases "dropWhile (\<lambda>e. e = StdoutData) events")
         (simp_all del: dropWhile_eq_Nil_conv)
  next
    case (Close c)
    with Cons.prems show ?thesis
      by (simp add: resolve_def probe_resolved_stays)
  next
    case ProcError
    with Cons.prems show ?thesis
      by (simp add: resolve_def probe_resolved_stays)
  qed
qed

text \<open>The handlers on the events of a child process: the first event that is not data on
  standard output settles the promise.\<close>

lemma probe_first_settling_event:
  "resolved (foldl probe_handler \<lparr>hasOutput = False, resolved = None\<rparr> events) =
     (case dropWhile (\<lambda>e. e = StdoutData) events of
        [] \<Rightarrow> None
      | e # rest \<Rightarrow>
          Some (e = Close (Some 0) \<and> takeWhile (\<lambda>e. e = StdoutData) events \<noteq> []))"
  by (cases "dropWhile (\<lambda>e. e = StdoutData) events")
     (simp_all add: probe_pending del: dropWhile_eq_Nil_conv)

lemma probe_of_child:
  "spawn os ''ffprobe''
     [''-v'', ''quiet'', ''-print_format'', ''json'', ''-show_format'',
      ''-analyzeduration'', ''1000000'', ''-probesize'', ''1048576'', url] = Child events \<Longrightarrow>
   testStreamingCapability os url =
     (case dropWhile (\<lambda>e. e = StdoutData) events of
        [] \<Rightarrow> Pending
      | e # rest \<Rightarrow>
          Fulfilled (e = Close (Some 0) \<and> takeWhile (\<lambda>e. e = StdoutData) events \<noteq> []))"
  unfolding testStreamingCapability_def
  by (cases "dropWhile (\<lambda>e. e = StdoutData) events")
     (simp_all add: probe_first_settling_event del: dropWhile_eq_Nil_conv)

lemma probe_of_throw:
  "spawn os ''ffprobe''
     [''-v'', ''quiet'', ''-print_format'', ''json'', ''-show_format'',
      ''-analyzeduration'', ''1000000'', ''-probesize'', ''1048576'', url] = Throws e \<Longrightarrow>
   testStreamingCapability os url = Rejected e"
  by (simp add: testStreamingCapability_def)

text \<open>\<open>spawn\<close> with the arguments of the probe: it gets as far as the operating system
  exactly when the locator has no character with code 0.\<close>

lemma probe_spawn:
  "spawn os ''ffprobe''
     [''-v'', ''quiet'', ''-print_format'', ''json'', ''-show_format'',
      ''-analyzeduration'', ''1000000'', ''-probesize'', ''1048576'', url] =
   (if CHR 0x00 \<in> set url then Throws ''ERR_INVALID_ARG_VALUE''
    else os ''ffprobe''
           [''-v'', ''quiet'', ''-print_format'', ''json'', ''-show_format'',
            ''-analyzeduration'', ''1000000'', ''-probesize'', ''1048576'', url])"
  by (simp add: spawn_def)

lemma data_prefix:
  "takeWhile (\<lambda>e. e = StdoutData) events =
   replicate (length (takeWhile (\<lambda>e. e = StdoutData) events)) StdoutData"
  by (induction events) auto

lemma data_then_close:
  "dropWhile (\<lambda>e. e = StdoutData) (replicate n StdoutData @ Close c # post) = Close c # post"
  "takeWhile (\<lambda>e. e = StdoutData) (replicate n StdoutData @ Close c # post) =
   replicate n StdoutData"
  by (induction n) auto

lemma settled_true_iff:
  "(case dropWhile (\<lambda>e. e = StdoutData) events of
      [] \<Rightarrow> Pending
    | e # rest \<Rightarrow>
        Fulfilled (e = Close (Some 0) \<and> takeWhile (\<lambda>e. e = StdoutData) events \<noteq> [])) =
     Fulfilled True \<longleftrightarrow>
   (\<exists>n post. 0 < n \<and> events = replicate n StdoutData @ Close (Some 0) # post)"
proof
  let ?P = "\<lambda>e. e = StdoutData"
  assume "(case dropWhile ?P events of
      [] \<Rightarrow> Pending
    | e # rest \<Rightarrow> Fulfilled (e = Close (Some 0) \<and> takeWhile ?P events \<noteq> [])) = Fulfilled True"
  then obtain rest where d: "dropWhile ?P events = Close (Some 0) # rest"
    and n: "takeWhile ?P events \<noteq> []"
    by (cases "dropWhile ?P events") (auto simp del: dropWhile_eq_Nil_conv)
  have "events = takeWhile ?P events @ dropWhile ?P events" by simp
  with d data_prefix [of events]
  have "events = replicate (length (takeWhile ?P events)) StdoutData @ Close (Some 0) # rest"
    by simp
  with n show "\<exists>n post. 0 < n \<and> events = replicate n StdoutData @ Close (Some 0) # post"
    by (metis length_greater_0_conv)
next
  assume "\<exists>n post. 0 < n \<and> events = replicate n StdoutData @ Close (Some 0) # post"
  then obtain n post where n: "0 < n" and e: "events = replicate n StdoutData @ Close (Some 0) # post"
    by blast
  have "dropWhile (\<lambda>e. e = StdoutData) events = Close (Some 0) # post"
    "takeWhile (\<lambda>e. e = StdoutData) events = replicate n StdoutData"
    by (simp_all add: e data_then_close)
  with n show "(case dropWhile (\<lambda>e. e = StdoutData) events of
      [] \<Rightarrow> Pending
    | e # rest \<Rightarrow>
        Fulfilled (e = Close (Some 0) \<and> takeWhile (\<lambda>e. e = StdoutData) events \<noteq> [])) =
     Fulfilled True"
    by simp
qed

text \<open>The probe of a locator without the character 0, on six runs of the process.\<close>

lemma probe_examples:
  "testStreamingCapability (\<lambda>c a. Child [StdoutData, Close (Some 0)]) ''https://example.com/video.mp4'' = Fulfilled True"
  "testStreamingCapability (\<lambda>c a. Child [Close (Some 0)]) ''https://example.com/video.mp4'' = Fulfilled False"
  "testStreamingCapability (\<lambda>c a. Child [StdoutData, Close (Some 1)]) ''https://example.com/video.mp4'' = Fulfilled False"
  "testStreamingCapability (\<lambda>c a. Child [StdoutData, Close None]) ''https://example.com/video.mp4'' = Fulfilled False"
  "testStreamingCapability (\<lambda>c a. Child [ProcError, Close (Some (-2))]) ''https://example.com/video.mp4'' = Fulfilled False"
  "testStreamingCapability (\<lambda>c a. Throws ''spawn E2BIG'') ''https://example.com/video.mp4'' = Rejected ''spawn E2BIG''"
  by (simp_all add: testStreamingCapability_def spawn_def resolve_def)

lemma probe_of_locator_with_NUL:
  "testStreamingCapability os (''https://example.com/video'' @ [CHR 0x00] @ ''.mp4'') =
   Rejected ''ERR_INVALID_ARG_VALUE''"
  by (simp add: testStreamingCapability_def spawn_def)

text \<open>
  Claim C6 fails on the code: the probe can throw. For a locator that contains the character
  with code 0 (between \<open>https://example.com/video\<close> and \<open>.mp4\<close>, say), \<open>spawn\<close> throws inside the executor
  and the promise of \<open>testStreamingCapability\<close> is rejected with \<open>ERR_INVALID_ARG_VALUE\<close>,
  whatever the operating system would do; it is rejected as well whenever \<open>spawn\<close> throws an
  error of the operating system. Only when \<open>spawn\<close> returns a child process does the probe
  behave as claimed: the first event that is not data on standard output settles it, with true
  if and only if that event is the close with exit code 0 and at least one data event came
  before it, with false for every other close (another exit code, or none after the kill of
  the timeout) and for an error event.
\<close>

theorem C6_probe_rejected_when_spawn_throws:
  "testStreamingCapability os (''https://example.com/video'' @ [CHR 0x00] @ ''.mp4'') =
     Rejected ''ERR_INVALID_ARG_VALUE'' \<and>
   testStreamingCapability os url =
     (if CHR 0x00 \<in> set url then Rejected ''ERR_INVALID_ARG_VALUE''
      else case os ''ffprobe''
                  [''-v'', ''quiet'', ''-print_format'', ''json'', ''-show_format'',
                   ''-analyzeduration'', ''1000000'', ''-probesize'', ''1048576'', url] of
             Throws e \<Rightarrow> Rejected e
           | Child events \<Rightarrow>
               (case dropWhile (\<lambda>e. e = StdoutData) events of
                  [] \<Rightarrow> Pending
                | e # rest \<Rightarrow>
                    Fulfilled (e = Close (Some 0) \<and>
                               takeWhile (\<lambda>e. e = StdoutData) events \<noteq> []))) \<and>
   ((case dropWhile (\<lambda>e. e = StdoutData) events of
       [] \<Rightarrow> Pending
     | e # rest \<Rightarrow>
         Fulfilled (e = Close (Some 0) \<and> takeWhile (\<lambda>e. e = StdoutData) events \<noteq> [])) =
      Fulfilled True) =
     (\<exists>n post. 0 < n \<and> events = replicate n StdoutData @ Close (Some 0) # post) \<and>
   testStreamingCapability (\<lambda>c a. Child [StdoutData, Close (Some 0)])
     ''https://example.com/video.mp4'' = Fulfilled True \<and>
   testStreamingCapability (\<lambda>c a. Child [Close (Some 0)])
     ''https://example.com/video.mp4'' = Fulfilled False \<and>
   testStreamingCapability (\<lambda>c a. Child [StdoutData, Close (Some 1)])
     ''https://example.com/video.mp4'' = Fulfilled False \<and>
   testStreamingCapability (\<lambda>c a. Child [StdoutData, Close None])
     ''https://example.com/video.mp4'' = Fulfilled False \<and>
   testStreamingCapability (\<lambda>c a. Child [ProcError, Close (Some (-2))])
     ''https://example.com/video.mp4'' = Fulfilled False \<and>
   testStreamingCapability (\<lambda>c a. Throws ''spawn E2BIG'')
     ''https://example.com/video.mp4'' = Rejected ''spawn E2BIG''"
proof -
  let ?args = "[''-v'', ''quiet'', ''-print_format'', ''json'', ''-show_format'',
                ''-analyzeduration'', ''1000000'', ''-probesize'', ''1048576'', url]"
  have general: "testStreamingCapability os url =
     (if CHR 0x00 \<in> set url then Rejected ''ERR_INVALID_ARG_VALUE''
      else case os ''ffprobe'' ?args of
             Throws e \<Rightarrow> Rejected e
           | Child events \<Rightarrow>
               (case dropWhile (\<lambda>e. e = StdoutData) events of
                  [] \<Rightarrow> Pending
                | e # rest \<Rightarrow>
                    Fulfilled (e = Close (Some 0) \<and>
                               takeWhile (\<lambda>e. e = StdoutData) events \<noteq> [])))"
  proof (cases "spawn os ''ffprobe'' ?args")
    case (Throws e)
    from probe_of_throw [OF this] Throws show ?thesis
      by (simp add: probe_spawn split: if_splits)
  next
    case (Child evs)
    from probe_of_child [OF this] Child show ?thesis
      by (simp add: probe_spawn split: if_splits)
  qed
  show ?thesis
    apply (intro conjI)
            apply (rule probe_of_locator_with_NUL)
           apply (rule general)
          apply (rule settled_true_iff)
         apply (rule probe_examples(1))
        apply (rule probe_examples(2))
       apply (rule probe_examples(3))
      apply (rule probe_examples(4))
     apply (rule probe_examples(5))
    apply (rule probe_examples(6))
    done
qed

section \<open>Properties of the analysis\<close>

lemma files_unlink_swallow:
  "files (unlink_swallow env p w) = (if unlink_fails env p then files w else files w - {p})"
  by (auto simp: unlink_swallow_def record_action_def Let_def)

lemma measure_and_report_result:
  "fst (measure_and_report (env\<lparr>unlink_fails := u\<rparr>) standards opts p w') =
   fst (measure_and_report env standards opts p w)"
  by (simp add: measure_and_report_def analyzeAudioLoudness_def Let_def
      split: proc_outcome.splits option.splits sum.splits prod.splits)

lemma measure_and_report_not_inspection:
  "fst (measure_and_report env standards opts p w) \<noteq> Inl (InspectionFailed msg)"
  by (simp add: measure_and_report_def analyzeAudioLoudness_def Let_def
      split: proc_outcome.splits option.splits sum.splits prod.splits)

lemma verbose_checks_result:
  "fst (verbose_checks (env\<lparr>unlink_fails := u\<rparr>) opts p b w') =
   fst (verbose_checks env opts p b w)"
  by (simp add: verbose_checks_def isVideoContainer_def Let_def
      split: option.splits sum.splits prod.splits)

text \<open>The result of the analysis does not depend on whether deletions fail.\<close>

lemma analyze_local_result:
  "fst (analyze_local (env\<lparr>unlink_fails := u\<rparr>) standards opts p b w') =
   fst (analyze_local env standards opts p b w)"
proof -
  have v: "fst (verbose_checks (env\<lparr>unlink_fails := u\<rparr>) opts p b w') =
           fst (verbose_checks env opts p b w)"
    by (rule verbose_checks_result)
  have m: "\<And>wa wb. fst (measure_and_report (env\<lparr>unlink_fails := u\<rparr>) standards opts p wa) =
           fst (measure_and_report env standards opts p wb)"
    by (rule measure_and_report_result)
  show ?thesis
    unfolding analyze_local_def
    using v m [of "snd (verbose_checks (env\<lparr>unlink_fails := u\<rparr>) opts p b w')"
                  "snd (verbose_checks env opts p b w)"] m [of w' w]
    by (auto split: prod.splits option.splits sum.splits)
qed

lemma deletion_failure_never_masks_result:
  "fst (analyze (env\<lparr>unlink_fails := u\<rparr>) standards opts w) = fst (analyze env standards opts w)"
  by (simp add: analyze_def Let_def analyze_local_result split: sum.splits)

text \<open>The temporary file is deleted on every exit but the rejection of an inspection.\<close>

lemma temporary_file_deleted_unless_inspection_rejected:
  assumes "\<not> unlink_fails env p"
    and "\<forall>msg. fst (analyze_local env standards opts p True w) \<noteq> Inl (InspectionFailed msg)"
  shows "p \<notin> files (snd (analyze_local env standards opts p True w))"
  using assms
  by (auto simp: analyze_local_def verbose_checks_def cleanup_def files_unlink_swallow Let_def
      split: prod.splits option.splits sum.splits if_splits)

text \<open>Every step only adds to the list of actions.\<close>

lemma actions_cleanup:
  "actions (cleanup env b p w) = actions w @ (if b then [Unlink p] else [])"
  by (simp add: cleanup_def unlink_swallow_def record_action_def Let_def)

lemma verbose_checks_extends:
  "\<exists>rest. actions (snd (verbose_checks env opts p b w)) = actions w @ rest"
  by (simp add: verbose_checks_def actions_cleanup record_action_def Let_def
      split: prod.splits option.splits sum.splits)

lemma measure_and_report_extends:
  "\<exists>rest. actions (snd (measure_and_report env standards opts p w)) = actions w @ rest"
  by (simp add: measure_and_report_def analyzeAudioLoudness_def record_action_def Let_def
      split: proc_outcome.splits prod.splits option.splits sum.splits)

lemma analyze_local_extends:
  "\<exists>rest. actions (snd (analyze_local env standards opts p b w)) = actions w @ rest"
proof -
  obtain r1 w1 where v: "(if verbose opts then verbose_checks env opts p b w else (None, w)) = (r1, w1)"
    by (cases "if verbose opts then verbose_checks env opts p b w else (None, w)")
  then obtain rest1 where 1: "actions w1 = actions w @ rest1"
    using verbose_checks_extends [of env opts p b w]
    by (cases "verbose opts") (auto simp: snd_def split: prod.splits)
  obtain rest2 where 2:
    "actions (snd (measure_and_report env standards opts p w1)) = actions w1 @ rest2"
    using measure_and_report_extends by blast
  show ?thesis
    using 1 2 unfolding analyze_local_def v
    by (auto simp: actions_cleanup split: prod.splits option.splits sum.splits)
qed

text \<open>For an S3 locator the first action of the analysis is the download.\<close>

lemma S3_input_is_downloaded_first:
  assumes "isS3Url (inputFile opts)"
  shows "\<exists>rest. actions (snd (analyze env standards opts w)) =
          actions w @ Download (inputFile opts) # rest"
proof (cases "downloadFileStatic env (inputFile opts)")
  case (Inl msg)
  with assms show ?thesis
    by (simp add: analyze_def record_action_def Let_def)
next
  case (Inr p)
  let ?w1 = "(record_action (Download (inputFile opts)) w)\<lparr>files :=
               insert p (files (record_action (Download (inputFile opts)) w))\<rparr>"
  obtain rest where "actions (snd (analyze_local env standards opts p True ?w1)) =
                     actions ?w1 @ rest"
    using analyze_local_extends by blast
  with assms Inr show ?thesis
    by (simp add: analyze_def record_action_def Let_def)
qed

lemma streamable_S3_locator:
  "isS3Url ''https://bucket.s3.us-east-1.amazonaws.com/video.mp4'' \<and>
   getStreamingCapability ''https://bucket.s3.us-east-1.amazonaws.com/video.mp4'' =
     \<lparr>canStream = True, format = ''mp4'', confidence = High, fallbackReason = None\<rparr>"
  by code_simp

lemma streamable_S3_locator_analysis:
  "analyze all_succeed EBU_R128_STANDARDS
     \<lparr>inputFile = ''https://bucket.s3.us-east-1.amazonaws.com/video.mp4'',
      audioStreamIndex = None, s3Upload = None, outputFile = None, verbose = False\<rparr>
     empty_world =
   (Inr \<lparr>file_path = ''https://bucket.s3.us-east-1.amazonaws.com/video.mp4'',
         isCompliant = True,
         metrics = \<lparr>integratedLoudness = Fin (-23), loudnessRange = Fin 5,
                    truePeakMax = Fin (-2), momentaryMax = Fin 0, shortTermMax = Fin 0\<rparr>,
         violations = [], timestamp = ''2024-01-15T10:30:00.000Z''\<rparr>,
    \<lparr>files = {},
     actions = [Download ''https://bucket.s3.us-east-1.amazonaws.com/video.mp4'',
                SpawnFfmpeg ''/tmp/audio-qc-1-video.mp4'',
                Unlink ''/tmp/audio-qc-1-video.mp4'']\<rparr>)"
  by code_simp

lemma streamable_http_locator:
  "\<not> isS3Url ''https://example.com/video.mp4'' \<and>
   canStream (getStreamingCapability ''https://example.com/video.mp4'')"
  by code_simp

lemma streamable_http_locator_analysis:
  "analyze all_succeed EBU_R128_STANDARDS
     \<lparr>inputFile = ''https://example.com/video.mp4'',
      audioStreamIndex = None, s3Upload = None, outputFile = None, verbose = False\<rparr>
     empty_world =
   (Inl (InputFileDoesNotExist ''https://example.com/video.mp4''), empty_world)"
  by code_simp

lemma remote_measurement_available:
  "analyzeFileFromUrl all_succeed ''https://bucket.s3.us-east-1.amazonaws.com/video.mp4'' None
     empty_world =
   (Inr \<lparr>integratedLoudness = Fin (-23), loudnessRange = Fin 5, truePeakMax = Fin (-2),
         momentaryMax = Fin 0, shortTermMax = Fin 0\<rparr>,
    \<lparr>files = {},
     actions = [SpawnFfmpeg ''https://bucket.s3.us-east-1.amazonaws.com/video.mp4'']\<rparr>)"
  by code_simp

text \<open>
  Claim C4 is not what \<open>analyze\<close> does. For an S3 locator whose verdict is streamable, with
  every collaborator succeeding (the measurement on the locator itself, by
  \<open>StreamingAnalyzer.analyzeFileFromUrl\<close>, would succeed without any file), the analysis
  downloads first and measures the downloaded copy; the measurement process is never run on
  the locator. A streamable HTTP locator that is not an S3 locator is refused as a file that
  does not exist.
\<close>

theorem C4_streamable_locator_is_downloaded_first:
  "isS3Url ''https://bucket.s3.us-east-1.amazonaws.com/video.mp4'' \<and>
   canStream (getStreamingCapability ''https://bucket.s3.us-east-1.amazonaws.com/video.mp4'') \<and>
   analyzeFileFromUrl all_succeed ''https://bucket.s3.us-east-1.amazonaws.com/video.mp4'' None
     empty_world =
   (Inr \<lparr>integratedLoudness = Fin (-23), loudnessRange = Fin 5, truePeakMax = Fin (-2),
         momentaryMax = Fin 0, shortTermMax = Fin 0\<rparr>,
    \<lparr>files = {},
     actions = [SpawnFfmpeg ''https://bucket.s3.us-east-1.amazonaws.com/video.mp4'']\<rparr>) \<and>
   actions (snd (analyze all_succeed EBU_R128_STANDARDS
     \<lparr>inputFile = ''https://bucket.s3.us-east-1.amazonaws.com/video.mp4'',
      audioStreamIndex = None, s3Upload = None, outputFile = None, verbose = False\<rparr>
     empty_world)) =
     [Download ''https://bucket.s3.us-east-1.amazonaws.com/video.mp4'',
      SpawnFfmpeg ''/tmp/audio-qc-1-video.mp4'',
      Unlink ''/tmp/audio-qc-1-video.mp4''] \<and>
   canStream (getStreamingCapability ''https://example.com/video.mp4'') \<and>
   analyze all_succeed EBU_R128_STANDARDS
     \<lparr>inputFile = ''https://example.com/video.mp4'',
      audioStreamIndex = None, s3Upload = None, outputFile = None, verbose = False\<rparr>
     empty_world =
   (Inl (InputFileDoesNotExist ''https://example.com/video.mp4''), empty_world)"
  by (simp add: streamable_S3_locator streamable_S3_locator_analysis streamable_http_locator
      streamable_http_locator_analysis remote_measurement_available)

lemma rejected_inspection_analysis:
  "analyze inspection_rejected EBU_R128_STANDARDS
     \<lparr>inputFile = ''s3://bucket/video.mp4'', audioStreamIndex = None, s3Upload = None,
      outputFile = None, verbose = True\<rparr> empty_world =
   (Inl (InspectionFailed ''FFprobe process failed with code 1: ''),
    \<lparr>files = {''/tmp/audio-qc-1-video.mp4''},
     actions = [Download ''s3://bucket/video.mp4'', SpawnFfprobe ''/tmp/audio-qc-1-video.mp4'']\<rparr>)"
  by code_simp

lemma rejected_stream_listing_analysis:
  "analyze stream_listing_rejected EBU_R128_STANDARDS
     \<lparr>inputFile = ''s3://bucket/video.mp4'', audioStreamIndex = None, s3Upload = None,
      outputFile = None, verbose = True\<rparr> empty_world =
   (Inl (InspectionFailed
          ''Failed to parse FFprobe output: SyntaxError: Unexpected end of JSON input''),
    \<lparr>files = {''/tmp/audio-qc-1-video.mp4''},
     actions = [Download ''s3://bucket/video.mp4'', SpawnFfprobe ''/tmp/audio-qc-1-video.mp4'',
                SpawnFfprobe ''/tmp/audio-qc-1-video.mp4'']\<rparr>)"
  by code_simp

text \<open>
  Claim C2 is not what \<open>analyze\<close> does on two exits: with \<open>verbose\<close> set, when the inspection
  of the downloaded container is rejected, or when the listing of its audio streams is rejected
  (the output of the inspection process does not parse), the error leaves \<open>analyze\<close> before the
  \<open>try\<close> block; no deletion is attempted and the temporary file stays.
\<close>

theorem C2_temporary_file_left_when_inspection_rejected:
  "analyze inspection_rejected EBU_R128_STANDARDS
     \<lparr>inputFile = ''s3://bucket/video.mp4'', audioStreamIndex = None, s3Upload = None,
      outputFile = None, verbose = True\<rparr> empty_world =
   (Inl (InspectionFailed ''FFprobe process failed with code 1: ''),
    \<lparr>files = {''/tmp/audio-qc-1-video.mp4''},
     actions = [Download ''s3://bucket/video.mp4'', SpawnFfprobe ''/tmp/audio-qc-1-video.mp4'']\<rparr>) \<and>
   analyze stream_listing_rejected EBU_R128_STANDARDS
     \<lparr>inputFile = ''s3://bucket/video.mp4'', audioStreamIndex = None, s3Upload = None,
      outputFile = None, verbose = True\<rparr> empty_world =
   (Inl (InspectionFailed
          ''Failed to parse FFprobe output: SyntaxError: Unexpected end of JSON input''),
    \<lparr>files = {''/tmp/audio-qc-1-video.mp4''},
     actions = [Download ''s3://bucket/video.mp4'', SpawnFfprobe ''/tmp/audio-qc-1-video.mp4'',
                SpawnFfprobe ''/tmp/audio-qc-1-video.mp4'']\<rparr>) \<and>
   ''/tmp/audio-qc-1-video.mp4'' \<in> files (snd (analyze stream_listing_rejected EBU_R128_STANDARDS
     \<lparr>inputFile = ''s3://bucket/video.mp4'', audioStreamIndex = None, s3Upload = None,
      outputFile = None, verbose = True\<rparr> empty_world))"
  by (simp add: rejected_inspection_analysis rejected_stream_listing_analysis)

text \<open>
  Claim C8: when the input is not an S3 locator and does not exist as a path, \<open>analyze\<close> fails
  with the error that the input file does not exist and leaves the state as it was: no
  process is spawned, nothing is downloaded. The command line stops at its first statement,
  with exit code 1.
\<close>

theorem C8_missing_local_input_fails_fast:
  "\<not> isS3Url (inputFile opts) \<Longrightarrow> inputFile opts \<notin> files w \<Longrightarrow>
   analyze env standards opts w = (Inl (InputFileDoesNotExist (inputFile opts)), w) \<and>
   cli_input_check (inputFile opts) w = Some 1"
  by (simp add: analyze_def cli_input_check_def)

lemma nonexistent_wav_not_S3: "\<not> isS3Url ''nonexistent.wav''"
  by code_simp

text \<open>The input \<open>nonexistent.wav\<close> in a file system without files.\<close>

theorem C8_missing_local_input_fails_fast_witness:
  "analyze all_succeed EBU_R128_STANDARDS
     \<lparr>inputFile = ''nonexistent.wav'', audioStreamIndex = None, s3Upload = None,
      outputFile = None, verbose = True\<rparr> empty_world =
   (Inl (InputFileDoesNotExist ''nonexistent.wav''), empty_world) \<and>
   actions empty_world = [] \<and>
   cli_input_check ''nonexistent.wav'' empty_world = Some 1"
  using C8_missing_local_input_fails_fast [of
     "\<lparr>inputFile = ''nonexistent.wav'', audioStreamIndex = None, s3Upload = None,
      outputFile = None, verbose = True\<rparr>" empty_world all_succeed EBU_R128_STANDARDS]
    nonexistent_wav_not_S3
  by (simp add: empty_world_def)

end
